theory Spec2Isabelle
  imports Main
begin

section \<open>Values, rows and errors\<close>

text \<open>
  The script \<^verbatim>\<open>scripts/port_from_sqlite_to_postgres.py\<close> moves rows from a SQLite
  database to a PostgreSQL database. A column value read from SQLite is NULL, an
  integer or a text; the row transform adds Python booleans.
\<close>

datatype val = VNull | VInt int | VStr string | VBool bool

text \<open>
  Exceptions of the script as values. \<open>Deadlock\<close> is a \<^verbatim>\<open>DatabaseError\<close> for which
  \<^verbatim>\<open>database_engine.is_deadlock(e)\<close> holds, \<open>DatabaseError\<close> is any other
  \<^verbatim>\<open>DatabaseError\<close>; the remaining constructors are not database errors.
\<close>

datatype error =
    Deadlock
  | DatabaseError string
  | StoreError nat
  | ValueError string
  | TypeError string

fun is_database_error :: "error \<Rightarrow> bool" where
  "is_database_error Deadlock = True"
| "is_database_error (DatabaseError m) = True"
| "is_database_error e = False"

fun is_deadlock :: "error \<Rightarrow> bool" where
  "is_deadlock Deadlock = True"
| "is_deadlock e = False"

section \<open>Store.runInteraction\<close>

text \<open>
  \<^verbatim>\<open>
  def r(conn):
      try:
          i = 0
          N = 5
          while True:
              try:
                  txn = conn.cursor()
                  return func(LoggingTransaction(txn, desc, self.database_engine), ...)
              except self.database_engine.module.DatabaseError as e:
                  if self.database_engine.is_deadlock(e):
                      logger.warn("[TXN DEADLOCK] {%s} %d/%d", desc, i, N)
                      if i < N:
                          i += 1
                          conn.rollback()
                          continue
                  raise
      except Exception as e:
          logger.debug("[TXN FAIL] {%s} %s", desc, e)
          raise
  \<close>
  The outcome of the \<open>k\<close>-th call of \<^verbatim>\<open>func\<close> on the connection is \<open>func k\<close>
  (calls are counted from 0). The loop returns the outcome it ends with, the number
  of calls of \<^verbatim>\<open>func\<close> it made and the number of \<^verbatim>\<open>conn.rollback()\<close> it
  issued (the final value of \<^verbatim>\<open>i\<close>).
\<close>

definition N :: nat where
  "N = 5"

function r_loop :: "(nat \<Rightarrow> error + 'a) \<Rightarrow> nat \<Rightarrow> nat \<Rightarrow> (error + 'a) \<times> nat \<times> nat" where
  "r_loop func calls i =
     (case func calls of
        Inr v \<Rightarrow> (Inr v, Suc calls, i)
      | Inl e \<Rightarrow>
          if is_database_error e then
            (if is_deadlock e then
               (if i < N then r_loop func (Suc calls) (Suc i)
                else (Inl e, Suc calls, i))
             else (Inl e, Suc calls, i))
          else (Inl e, Suc calls, i))"
  by pat_completeness auto
termination
  by (relation "measure (\<lambda>(func, calls, i). N - i)") auto

definition runInteraction :: "(nat \<Rightarrow> error + 'a) \<Rightarrow> (error + 'a) \<times> nat \<times> nat" where
  "runInteraction func = r_loop func 0 0"

text \<open>An attempt that ends in a deadlock error.\<close>

fun deadlocked :: "error + 'a \<Rightarrow> bool" where
  "deadlocked (Inl e) = is_deadlock e"
| "deadlocked (Inr v) = False"

text \<open>Facts about the loop that later definitions need for their termination.\<close>

lemma is_deadlock_database_error: "is_deadlock e \<Longrightarrow> is_database_error e"
  by (cases e) simp_all

lemma r_loop_skip:
  "\<forall>j<k. deadlocked (func (calls + j)) \<Longrightarrow> i + k \<le> N \<Longrightarrow>
   r_loop func calls i = r_loop func (calls + k) (i + k)"
proof (induction k arbitrary: calls i)
  case 0
  then show ?case by simp
next
  case (Suc k)
  from Suc.prems(1) have d: "deadlocked (func calls)" by (metis add.right_neutral zero_less_Suc)
  then obtain e where e: "func calls = Inl e" "is_deadlock e"
    by (cases "func calls") auto
  from Suc.prems(2) have lt: "i < N" by simp
  have step: "r_loop func calls i = r_loop func (Suc calls) (Suc i)"
    using e lt is_deadlock_database_error[OF e(2)] by (simp add: r_loop.simps[of func calls i] del: r_loop.simps)
  have "\<forall>j<k. deadlocked (func (Suc calls + j))"
    using Suc.prems(1) by (metis Suc_less_eq add_Suc_right add_Suc)
  moreover have "Suc i + k \<le> N" using Suc.prems(2) by simp
  ultimately have "r_loop func (Suc calls) (Suc i) = r_loop func (Suc calls + k) (Suc i + k)"
    by (rule Suc.IH)
  with step show ?case by simp
qed

lemma r_loop_stop:
  "\<not> deadlocked (func calls) \<or> i = N \<Longrightarrow> r_loop func calls i = (func calls, Suc calls, i)"
  by (cases "func calls") (auto simp: is_deadlock_database_error)

lemma runInteraction_const: "fst (runInteraction (\<lambda>k. x)) = x"
proof (cases "deadlocked x")
  case True
  have "r_loop (\<lambda>k. x) 0 0 = r_loop (\<lambda>k. x) (0 + N) (0 + N)"
    using True by (intro r_loop_skip) simp_all
  also have "\<dots> = (x, Suc N, N)"
    by (simp add: r_loop_stop del: r_loop.simps)
  finally show ?thesis by (simp add: runInteraction_def)
next
  case False
  then show ?thesis by (simp add: runInteraction_def r_loop_stop del: r_loop.simps)
qed

section \<open>Porter._convert_rows\<close>

text \<open>
  \<^verbatim>\<open>
  BOOLEAN_COLUMNS = {
      "events": ["processed", "outlier"],
      "rooms": ["is_public"],
      "event_edges": ["is_state"],
      "presence_list": ["accepted"],
  }
  \<close>
\<close>

definition BOOLEAN_COLUMNS :: "string \<rightharpoonup> string list" where
  "BOOLEAN_COLUMNS = map_of
     [(''events'', [''processed'', ''outlier'']),
      (''rooms'', [''is_public'']),
      (''event_edges'', [''is_state'']),
      (''presence_list'', [''accepted''])]"

text \<open>Python's \<^verbatim>\<open>bool(col)\<close> on the values of the model.\<close>

fun py_bool :: "val \<Rightarrow> bool" where
  "py_bool VNull = False"
| "py_bool (VInt n) = (n \<noteq> 0)"
| "py_bool (VStr s) = (s \<noteq> [])"
| "py_bool (VBool b) = b"

text \<open>
  \<^verbatim>\<open>
  def _convert_rows(self, table, headers, rows):
      bool_col_names = BOOLEAN_COLUMNS.get(table, [])
      bool_cols = [i for i, h in enumerate(headers) if h in bool_col_names]
      def conv(j, col):
          if j in bool_cols:
              return bool(col)
          return col
      for i, row in enumerate(rows):
          rows[i] = tuple(
              self.postgres_store.database_engine.encode_parameter(conv(j, col))
              for j, col in enumerate(row)
              if j > 0
          )
  \<close>
  \<^verbatim>\<open>encode_parameter\<close> belongs to the database engine, which is not part of the
  script; it is the parameter \<open>enc\<close>. The list \<^verbatim>\<open>rows\<close> is updated in place; the
  model returns the new list.
\<close>

definition bool_col_names :: "string \<Rightarrow> string list" where
  "bool_col_names table = (case BOOLEAN_COLUMNS table of None \<Rightarrow> [] | Some cs \<Rightarrow> cs)"

definition bool_cols :: "string \<Rightarrow> string list \<Rightarrow> nat list" where
  "bool_cols table headers =
     [i. (i, h) \<leftarrow> enumerate 0 headers, h \<in> set (bool_col_names table)]"

definition conv :: "nat list \<Rightarrow> nat \<Rightarrow> val \<Rightarrow> val" where
  "conv bcs j col = (if j \<in> set bcs then VBool (py_bool col) else col)"

definition convert_row :: "(val \<Rightarrow> val) \<Rightarrow> nat list \<Rightarrow> val list \<Rightarrow> val list" where
  "convert_row enc bcs row = [enc (conv bcs j col). (j, col) \<leftarrow> enumerate 0 row, j > 0]"

definition convert_rows ::
  "(val \<Rightarrow> val) \<Rightarrow> string \<Rightarrow> string list \<Rightarrow> val list list \<Rightarrow> val list list" where
  "convert_rows enc table headers rows = map (convert_row enc (bool_cols table headers)) rows"

section \<open>The two databases\<close>

text \<open>
  A table of the SQLite database: the names of its columns and its rows, each with
  its \<^verbatim>\<open>rowid\<close>. SQLite keeps the rowids of a table distinct and gives every
  row one value for each column; \<open>wf_table\<close> says so.
\<close>

record sqlite_table =
  columns :: "string list"
  contents :: "(int \<times> val list) list"

type_synonym sqlite_db = "string \<rightharpoonup> sqlite_table"

definition wf_table :: "sqlite_table \<Rightarrow> bool" where
  "wf_table t \<longleftrightarrow> distinct (map fst (contents t))
     \<and> list_all (\<lambda>r. length (snd r) = length (columns t)) (contents t)"

text \<open>
  The PostgreSQL database: the bookkeeping table \<^verbatim>\<open>port_from_sqlite3\<close>
  (\<open>None\<close> while the relation does not exist; \<^verbatim>\<open>table_name\<close> is \<^verbatim>\<open>UNIQUE\<close>,
  so its rows are a map from table name to \<^verbatim>\<open>rowid\<close>), the rows of every other
  relation in the order of their insertion, for each relation the relations that
  \<^verbatim>\<open>TRUNCATE ... CASCADE\<close> empties with it (those that reference it by a foreign
  key), and whether the connected role may create relations.
\<close>

record postgres_db =
  port_from_sqlite3 :: "(string \<rightharpoonup> int) option"
  relations :: "string \<rightharpoonup> val list list"
  cascade :: "string \<Rightarrow> string list"
  may_create :: bool

text \<open>The \<^verbatim>\<open>rowid\<close> stored in \<^verbatim>\<open>port_from_sqlite3\<close> for a table, if there is one.\<close>

definition cursor :: "postgres_db \<Rightarrow> string \<Rightarrow> int option" where
  "cursor d table = (case port_from_sqlite3 d of None \<Rightarrow> None | Some p \<Rightarrow> p table)"

text \<open>
  A transaction is a function of the database that fails or returns a value and the
  new database. \<^verbatim>\<open>Store.execute(f)\<close> is \<^verbatim>\<open>runInteraction(f.__name__, f)\<close>; every
  call of \<^verbatim>\<open>f\<close> by the retry loop starts from the database as it was, the failed
  call having been rolled back, and the pool commits when the loop returns.
\<close>

definition execute :: "('db \<Rightarrow> error + 'a) \<Rightarrow> 'db \<Rightarrow> error + 'a" where
  "execute f d = fst (runInteraction (\<lambda>k. f d))"

lemma execute_eq: "execute f d = f d"
  by (simp add: execute_def runInteraction_const)

subsection \<open>Statements on SQLite\<close>

definition sql_limit :: "int \<Rightarrow> 'a list \<Rightarrow> 'a list" where
  "sql_limit n xs = (if n < 0 then xs else take (nat n) xs)"

text \<open>The tuple that \<^verbatim>\<open>SELECT rowid, *\<close> returns for a row.\<close>

definition full_row :: "int \<times> val list \<Rightarrow> val list" where
  "full_row r = VInt (fst r) # snd r"

text \<open>
  \<^verbatim>\<open>SELECT rowid, * FROM %s WHERE rowid >= ? ORDER BY rowid LIMIT ?\<close> with the
  parameters \<^verbatim>\<open>(next_chunk, self.batch_size)\<close>, and
  \<^verbatim>\<open>headers = [column[0] for column in txn.description]\<close>. The rows are returned
  with their rowid kept apart; \<open>full_row\<close> makes the tuple.
\<close>

definition select_chunk ::
  "string \<Rightarrow> int \<Rightarrow> int \<Rightarrow> sqlite_db \<Rightarrow> error + (string list \<times> (int \<times> val list) list)" where
  "select_chunk table next_chunk batch_size db =
     (case db table of
        None \<Rightarrow> Inl (DatabaseError ''no such table'')
      | Some t \<Rightarrow>
          Inr (''rowid'' # columns t,
               sql_limit batch_size (sort_key fst [r \<leftarrow> contents t. next_chunk \<le> fst r])))"

text \<open>\<^verbatim>\<open>SELECT count(*) FROM %s WHERE rowid >= ?\<close>\<close>

definition get_remaining_count_to_port :: "string \<Rightarrow> int \<Rightarrow> sqlite_db \<Rightarrow> error + int" where
  "get_remaining_count_to_port table next_chunk db =
     (case db table of
        None \<Rightarrow> Inl (DatabaseError ''no such table'')
      | Some t \<Rightarrow> Inr (int (length [r \<leftarrow> contents t. next_chunk \<le> fst r])))"

subsection \<open>Statements on PostgreSQL\<close>

text \<open>
  Modelled from the spec: the helpers \<^verbatim>\<open>_simple_select_one_onecol\<close>,
  \<^verbatim>\<open>_simple_insert\<close> and \<^verbatim>\<open>_simple_update_one_txn\<close> are taken by \<^verbatim>\<open>Store\<close>
  from \<^verbatim>\<open>synapse.storage._base.SQLBaseStore\<close>, which is not part of the script.
  The spec calls them thin, generic single-table helpers layered over the transaction
  primitive (\<^verbatim>\<open>selectOneOnecolOne\<close>, \<^verbatim>\<open>insertOne\<close>, \<^verbatim>\<open>updateOneRow\<close>). They are
  used on \<^verbatim>\<open>port_from_sqlite3\<close> only, with the key \<^verbatim>\<open>table_name\<close> and the column
  \<^verbatim>\<open>rowid\<close>: the select (with \<^verbatim>\<open>allow_none=True\<close>) returns the value or
  \<^verbatim>\<open>None\<close>, the insert adds a row and fails on a second row for the same
  \<^verbatim>\<open>table_name\<close>, the update changes the one row and fails when there is none.
\<close>

definition simple_select_one_onecol :: "string \<Rightarrow> postgres_db \<Rightarrow> error + int option" where
  "simple_select_one_onecol table d =
     (case port_from_sqlite3 d of
        None \<Rightarrow> Inl (DatabaseError ''relation port_from_sqlite3 does not exist'')
      | Some p \<Rightarrow> Inr (p table))"

definition simple_insert_txn :: "string \<Rightarrow> int \<Rightarrow> postgres_db \<Rightarrow> error + postgres_db" where
  "simple_insert_txn table rowid d =
     (case port_from_sqlite3 d of
        None \<Rightarrow> Inl (DatabaseError ''relation port_from_sqlite3 does not exist'')
      | Some p \<Rightarrow>
          (case p table of
             Some v \<Rightarrow> Inl (DatabaseError ''duplicate key value violates unique constraint'')
           | None \<Rightarrow> Inr (d\<lparr>port_from_sqlite3 := Some (p(table \<mapsto> rowid))\<rparr>)))"

definition simple_insert :: "string \<Rightarrow> int \<Rightarrow> postgres_db \<Rightarrow> error + postgres_db" where
  "simple_insert table rowid d = execute (simple_insert_txn table rowid) d"

definition simple_update_one_txn :: "string \<Rightarrow> int \<Rightarrow> postgres_db \<Rightarrow> error + postgres_db" where
  "simple_update_one_txn table rowid d =
     (case port_from_sqlite3 d of
        None \<Rightarrow> Inl (DatabaseError ''relation port_from_sqlite3 does not exist'')
      | Some p \<Rightarrow>
          (case p table of
             None \<Rightarrow> Inl (StoreError 404)
           | Some v \<Rightarrow> Inr (d\<lparr>port_from_sqlite3 := Some (p(table \<mapsto> rowid))\<rparr>)))"

text \<open>
  \<^verbatim>\<open>
  def insert_many_txn(self, txn, table, headers, rows):
      sql = "INSERT INTO %s (%s) VALUES (%s)" % (...)
      try:
          txn.executemany(sql, rows)
      except:
          logger.exception("Failed to insert: %s", table)
          raise
  \<close>
  The rows are stored as they are given, in the order of \<^verbatim>\<open>headers\<close>.
\<close>

definition insert_many_txn ::
  "string \<Rightarrow> string list \<Rightarrow> val list list \<Rightarrow> postgres_db \<Rightarrow> error + postgres_db" where
  "insert_many_txn table headers rows d =
     (case relations d table of
        None \<Rightarrow> Inl (DatabaseError ''relation does not exist'')
      | Some old \<Rightarrow> Inr (d\<lparr>relations := (relations d)(table \<mapsto> old @ rows)\<rparr>))"

text \<open>\<^verbatim>\<open>SELECT count(*) FROM %s\<close>\<close>

definition get_already_ported_count :: "string \<Rightarrow> postgres_db \<Rightarrow> error + int" where
  "get_already_ported_count table d =
     (case relations d table of
        None \<Rightarrow> Inl (DatabaseError ''relation does not exist'')
      | Some rows \<Rightarrow> Inr (int (length rows)))"

text \<open>
  \<^verbatim>\<open>
  def delete_all(txn):
      txn.execute("DELETE FROM port_from_sqlite3 WHERE table_name = %s", (table,))
      txn.execute("TRUNCATE %s CASCADE" % (table,))
  \<close>
\<close>

definition truncate_cascade :: "string \<Rightarrow> postgres_db \<Rightarrow> string \<rightharpoonup> val list list" where
  "truncate_cascade table d =
     (\<lambda>u. if u = table \<or> u \<in> set (cascade d table)
          then map_option (\<lambda>rows. []) (relations d u) else relations d u)"

definition delete_all :: "string \<Rightarrow> postgres_db \<Rightarrow> error + postgres_db" where
  "delete_all table d =
     (case port_from_sqlite3 d of
        None \<Rightarrow> Inl (DatabaseError ''relation port_from_sqlite3 does not exist'')
      | Some p \<Rightarrow>
          (case relations d table of
             None \<Rightarrow> Inl (DatabaseError ''relation does not exist'')
           | Some rows \<Rightarrow>
               Inr (d\<lparr>port_from_sqlite3 := Some (p(table := None)),
                      relations := truncate_cascade table d\<rparr>)))"

text \<open>
  \<^verbatim>\<open>
  def create_port_table(txn):
      txn.execute(
          "CREATE TABLE port_from_sqlite3 ("
          " table_name varchar(100) NOT NULL UNIQUE,"
          " rowid bigint NOT NULL"
          ")"
      )
  \<close>
\<close>

definition create_port_table :: "postgres_db \<Rightarrow> error + postgres_db" where
  "create_port_table d =
     (case port_from_sqlite3 d of
        Some p \<Rightarrow> Inl (DatabaseError ''relation port_from_sqlite3 already exists'')
      | None \<Rightarrow>
          if may_create d then Inr (d\<lparr>port_from_sqlite3 := Some Map.empty\<rparr>)
          else Inl (DatabaseError ''permission denied for schema public''))"

section \<open>Planning: Porter.setup_table\<close>

definition APPEND_ONLY_TABLES :: "string list" where
  "APPEND_ONLY_TABLES =
     [''event_content_hashes'', ''event_reference_hashes'', ''event_signatures'',
      ''event_edge_hashes'', ''events'', ''event_json'', ''state_events'',
      ''room_memberships'', ''feedback'', ''topics'', ''room_names'', ''rooms'',
      ''local_media_repository'', ''local_media_repository_thumbnails'',
      ''remote_media_cache'', ''remote_media_cache_thumbnails'', ''redactions'',
      ''event_edges'', ''event_auth'', ''received_transactions'', ''sent_transactions'',
      ''transaction_id_to_pdu'', ''users'', ''state_groups'', ''state_groups_state'',
      ''event_to_state_groups'', ''rejections'']"

text \<open>
  The result of planning a table or of one of its steps: the outcome, and the states
  of the PostgreSQL database after each transaction that the step committed, oldest
  first. A step that raises keeps what it committed before.
\<close>

type_synonym 'a planned = "(error + 'a) \<times> postgres_db list"

definition final :: "postgres_db \<Rightarrow> postgres_db list \<Rightarrow> postgres_db" where
  "final d commits = last (d # commits)"

text \<open>
  \<^verbatim>\<open>
  def _get_total_count_to_port(self, table, next_chunk):
      remaining, done = yield defer.gatherResults(
          [self._get_remaining_count_to_port(table, next_chunk),
           self._get_already_ported_count(table)], consumeErrors=True)
      remaining = int(remaining) if remaining else 0
      done = int(done) if done else 0
      defer.returnValue((done, remaining + done))
  \<close>
\<close>

definition get_total_count_to_port ::
  "sqlite_db \<Rightarrow> string \<Rightarrow> int \<Rightarrow> postgres_db \<Rightarrow> error + (int \<times> int)" where
  "get_total_count_to_port src table next_chunk d =
     (case execute (get_remaining_count_to_port table next_chunk) src of
        Inl e \<Rightarrow> Inl e
      | Inr remaining \<Rightarrow>
          (case execute (get_already_ported_count table) d of
             Inl e \<Rightarrow> Inl e
           | Inr done \<Rightarrow> Inr (done, remaining + done)))"

subsection \<open>The first-time setup of sent_transactions\<close>

text \<open>
  The script is Python 2: \<^verbatim>\<open>r[ts_ind] < yesterday\<close> compares a column value with an
  integer, \<^verbatim>\<open>None\<close> being smaller than every number and a string larger.
  In SQLite's \<^verbatim>\<open>ts >= ?\<close> a NULL satisfies no comparison and a text is larger than
  every integer.
\<close>

fun py_lt_int :: "val \<Rightarrow> int \<Rightarrow> bool" where
  "py_lt_int VNull y = True"
| "py_lt_int (VInt n) y = (n < y)"
| "py_lt_int (VBool b) y = ((if b then 1 else 0) < y)"
| "py_lt_int (VStr s) y = False"

fun sql_ge_int :: "val \<Rightarrow> int \<Rightarrow> bool" where
  "sql_ge_int VNull y = False"
| "sql_ge_int (VInt n) y = (y \<le> n)"
| "sql_ge_int (VBool b) y = (y \<le> (if b then 1 else 0))"
| "sql_ge_int (VStr s) y = True"

text \<open>Python 2's \<^verbatim>\<open>a < b\<close> on two column values, as \<^verbatim>\<open>max\<close> uses it.\<close>

fun py_rank :: "val \<Rightarrow> nat" where
  "py_rank VNull = 0"
| "py_rank (VInt n) = 1"
| "py_rank (VBool b) = 1"
| "py_rank (VStr s) = 2"

fun py_num :: "val \<Rightarrow> int" where
  "py_num (VInt n) = n"
| "py_num (VBool b) = (if b then 1 else 0)"
| "py_num v = 0"

fun str_lt :: "string \<Rightarrow> string \<Rightarrow> bool" where
  "str_lt [] [] = False"
| "str_lt [] (d # ds) = True"
| "str_lt (c # cs) [] = False"
| "str_lt (c # cs) (d # ds) =
     ((of_char c :: nat) < of_char d \<or> (c = d \<and> str_lt cs ds))"

definition py_lt :: "val \<Rightarrow> val \<Rightarrow> bool" where
  "py_lt a b =
     (case (a, b) of
        (VStr s, VStr t) \<Rightarrow> str_lt s t
      | _ \<Rightarrow> if py_rank a = py_rank b then py_num a < py_num b else py_rank a < py_rank b)"

text \<open>\<^verbatim>\<open>max(iterable)\<close>: the first of the largest items, \<^verbatim>\<open>ValueError\<close> on none.\<close>

fun py_max :: "val list \<Rightarrow> error + val" where
  "py_max [] = Inl (ValueError ''max() arg is an empty sequence'')"
| "py_max (x # xs) = Inr (fold (\<lambda>item m. if py_lt m item then item else m) xs x)"

text \<open>\<^verbatim>\<open>max_inserted_rowid + 1\<close>\<close>

fun py_add_one :: "val \<Rightarrow> error + int" where
  "py_add_one (VInt n) = Inr (n + 1)"
| "py_add_one (VBool b) = Inr ((if b then 1 else 0) + 1)"
| "py_add_one VNull = Inl (TypeError ''unsupported operand type(s) for +'')"
| "py_add_one (VStr s) = Inl (TypeError ''cannot concatenate str and int objects'')"

text \<open>\<^verbatim>\<open>list.index\<close>\<close>

fun index_of :: "'a list \<Rightarrow> 'a \<Rightarrow> nat option" where
  "index_of [] x = None"
| "index_of (y # ys) x = (if y = x then Some 0 else map_option Suc (index_of ys x))"

text \<open>
  \<^verbatim>\<open>
  SELECT rowid, * FROM sent_transactions WHERE rowid IN (
      SELECT max(rowid) FROM sent_transactions GROUP BY destination)
  \<close>
  The statement has no \<^verbatim>\<open>ORDER BY\<close>; the model returns the rows in the order of
  the table.
\<close>

definition max_rowid_by_destination :: "nat \<Rightarrow> (int \<times> val list) list \<Rightarrow> int list" where
  "max_rowid_by_destination di rows =
     [Max (set [fst r. r \<leftarrow> rows, snd r ! di = dest]). dest \<leftarrow> remdups [snd r ! di. r \<leftarrow> rows]]"

definition select_max_rows :: "sqlite_db \<Rightarrow> error + (string list \<times> (int \<times> val list) list)" where
  "select_max_rows db =
     (case db ''sent_transactions'' of
        None \<Rightarrow> Inl (DatabaseError ''no such table'')
      | Some t \<Rightarrow>
          (case index_of (columns t) ''destination'' of
             None \<Rightarrow> Inl (DatabaseError ''no such column: destination'')
           | Some di \<Rightarrow>
               Inr (''rowid'' # columns t,
                    [r \<leftarrow> contents t. fst r \<in> set (max_rowid_by_destination di (contents t))])))"

text \<open>
  \<^verbatim>\<open>
  def r(txn):
      txn.execute(select)
      rows = txn.fetchall()
      headers = [column[0] for column in txn.description]
      ts_ind = headers.index('ts')
      return headers, [r for r in rows if r[ts_ind] < yesterday]
  \<close>
\<close>

definition r_sent :: "int \<Rightarrow> sqlite_db \<Rightarrow> error + (string list \<times> (int \<times> val list) list)" where
  "r_sent yesterday db =
     (case select_max_rows db of
        Inl e \<Rightarrow> Inl e
      | Inr (headers, rows) \<Rightarrow>
          (case index_of headers ''ts'' of
             None \<Rightarrow> Inl (ValueError ''ts is not in list'')
           | Some ts_ind \<Rightarrow>
               Inr (headers, [r \<leftarrow> rows. py_lt_int (full_row r ! ts_ind) yesterday])))"

text \<open>
  \<^verbatim>\<open>
  def get_start_id(txn):
      txn.execute("SELECT rowid FROM sent_transactions WHERE ts >= ?"
                  " ORDER BY rowid ASC LIMIT 1", (yesterday,))
      rows = txn.fetchall()
      if rows:
          return rows[0][0]
      else:
          return 1
  \<close>
\<close>

definition rows_since :: "int \<Rightarrow> sqlite_table \<Rightarrow> nat \<Rightarrow> (int \<times> val list) list" where
  "rows_since yesterday t ti = [r \<leftarrow> contents t. sql_ge_int (snd r ! ti) yesterday]"

definition get_start_id :: "int \<Rightarrow> sqlite_db \<Rightarrow> error + int" where
  "get_start_id yesterday db =
     (case db ''sent_transactions'' of
        None \<Rightarrow> Inl (DatabaseError ''no such table'')
      | Some t \<Rightarrow>
          (case index_of (columns t) ''ts'' of
             None \<Rightarrow> Inl (DatabaseError ''no such column: ts'')
           | Some ti \<Rightarrow>
               (case sql_limit 1 (sort_key fst (rows_since yesterday t ti)) of
                  [] \<Rightarrow> Inr 1
                | row # rest \<Rightarrow> Inr (fst row))))"

text \<open>\<^verbatim>\<open>SELECT count(*) FROM sent_transactions WHERE ts >= ?\<close>\<close>

definition get_sent_table_size :: "int \<Rightarrow> sqlite_db \<Rightarrow> error + int" where
  "get_sent_table_size yesterday db =
     (case db ''sent_transactions'' of
        None \<Rightarrow> Inl (DatabaseError ''no such table'')
      | Some t \<Rightarrow>
          (case index_of (columns t) ''ts'' of
             None \<Rightarrow> Inl (DatabaseError ''no such column: ts'')
           | Some ti \<Rightarrow> Inr (int (length (rows_since yesterday t ti)))))"

text \<open>
  \<^verbatim>\<open>
  def _setup_sent_transactions(self):
      # Only save things from the last day
      yesterday = int(time.time()*1000) - 86400000
      # And save the max transaction id from each destination
      ...
      headers, rows = yield self.sqlite_store.runInteraction("select", r)
      self._convert_rows("sent_transactions", headers, rows)
      inserted_rows = len(rows)
      max_inserted_rowid = max(r[0] for r in rows)
      def insert(txn):
          self.postgres_store.insert_many_txn(txn, "sent_transactions", headers[1:], rows)
      yield self.postgres_store.execute(insert)
      ...
      next_chunk = yield self.sqlite_store.execute(get_start_id)
      next_chunk = max(max_inserted_rowid + 1, next_chunk)
      yield self.postgres_store._simple_insert(
          table="port_from_sqlite3",
          values={"table_name": "sent_transactions", "rowid": next_chunk})
      ...
      remaining_count = yield self.sqlite_store.execute(get_sent_table_size)
      total_count = remaining_count + inserted_rows
      defer.returnValue((next_chunk, inserted_rows, total_count))
  \<close>
  \<open>now_ms\<close> is the value of \<^verbatim>\<open>int(time.time()*1000)\<close>. The maximum is taken
  over the rows as \<^verbatim>\<open>_convert_rows\<close> left them, so \<^verbatim>\<open>r[0]\<close> is the first
  column of the table (after \<^verbatim>\<open>encode_parameter\<close>), the rowid having been dropped.
\<close>

definition setup_sent_transactions ::
  "(val \<Rightarrow> val) \<Rightarrow> int \<Rightarrow> sqlite_db \<Rightarrow> postgres_db \<Rightarrow> (int \<times> int \<times> int) planned" where
  "setup_sent_transactions enc now_ms src d =
     (let yesterday = now_ms - 86400000 in
      case execute (r_sent yesterday) src of
        Inl e \<Rightarrow> (Inl e, [])
      | Inr (headers, rows0) \<Rightarrow>
          let rows = convert_rows enc ''sent_transactions'' headers (map full_row rows0);
              inserted_rows = int (length rows)
          in
          (case py_max (map (\<lambda>r. r ! 0) rows) of
             Inl e \<Rightarrow> (Inl e, [])
           | Inr max_inserted_rowid \<Rightarrow>
               (case execute (insert_many_txn ''sent_transactions'' (tl headers) rows) d of
                  Inl e \<Rightarrow> (Inl e, [])
                | Inr d1 \<Rightarrow>
                    (case execute (get_start_id yesterday) src of
                       Inl e \<Rightarrow> (Inl e, [d1])
                     | Inr start_id \<Rightarrow>
                         (case py_add_one max_inserted_rowid of
                            Inl e \<Rightarrow> (Inl e, [d1])
                          | Inr m \<Rightarrow>
                              let next_chunk = max m start_id in
                              (case simple_insert ''sent_transactions'' next_chunk d1 of
                                 Inl e \<Rightarrow> (Inl e, [d1])
                               | Inr d2 \<Rightarrow>
                                   (case execute (get_sent_table_size yesterday) src of
                                      Inl e \<Rightarrow> (Inl e, [d1, d2])
                                    | Inr remaining_count \<Rightarrow>
                                        (Inr (next_chunk, inserted_rows,
                                              remaining_count + inserted_rows),
                                         [d1, d2]))))))))"

text \<open>
  \<^verbatim>\<open>
  def setup_table(self, table):
      if table in APPEND_ONLY_TABLES:
          # It's safe to just carry on inserting.
          next_chunk = yield self.postgres_store._simple_select_one_onecol(
              table="port_from_sqlite3", keyvalues={"table_name": table},
              retcol="rowid", allow_none=True)
          total_to_port = None
          if next_chunk is None:
              if table == "sent_transactions":
                  next_chunk, already_ported, total_to_port = (
                      yield self._setup_sent_transactions())
              else:
                  yield self.postgres_store._simple_insert(
                      table="port_from_sqlite3", values={"table_name": table, "rowid": 1})
                  next_chunk = 1
                  already_ported = 0
          if total_to_port is None:
              already_ported, total_to_port = yield self._get_total_count_to_port(
                  table, next_chunk)
      else:
          def delete_all(txn): ...
          yield self.postgres_store.execute(delete_all)
          yield self.postgres_store._simple_insert(
              table="port_from_sqlite3", values={"table_name": table, "rowid": 0})
          next_chunk = 1
          already_ported, total_to_port = yield self._get_total_count_to_port(
              table, next_chunk)
      defer.returnValue((table, already_ported, total_to_port, next_chunk))
  \<close>
\<close>

type_synonym plan = "string \<times> int \<times> int \<times> int"

definition setup_table ::
  "(val \<Rightarrow> val) \<Rightarrow> int \<Rightarrow> sqlite_db \<Rightarrow> string \<Rightarrow> postgres_db \<Rightarrow> plan planned" where
  "setup_table enc now_ms src table d =
     (if table \<in> set APPEND_ONLY_TABLES then
        (case execute (simple_select_one_onecol table) d of
           Inl e \<Rightarrow> (Inl e, [])
         | Inr None \<Rightarrow>
             if table = ''sent_transactions'' then
               (case setup_sent_transactions enc now_ms src d of
                  (Inl e, commits) \<Rightarrow> (Inl e, commits)
                | (Inr (next_chunk, already_ported, total_to_port), commits) \<Rightarrow>
                    (Inr (table, already_ported, total_to_port, next_chunk), commits))
             else
               (case simple_insert table 1 d of
                  Inl e \<Rightarrow> (Inl e, [])
                | Inr d1 \<Rightarrow>
                    (case get_total_count_to_port src table 1 d1 of
                       Inl e \<Rightarrow> (Inl e, [d1])
                     | Inr (already_ported, total_to_port) \<Rightarrow>
                         (Inr (table, already_ported, total_to_port, 1), [d1])))
         | Inr (Some next_chunk) \<Rightarrow>
             (case get_total_count_to_port src table next_chunk d of
                Inl e \<Rightarrow> (Inl e, [])
              | Inr (already_ported, total_to_port) \<Rightarrow>
                  (Inr (table, already_ported, total_to_port, next_chunk), [])))
      else
        (case execute (delete_all table) d of
           Inl e \<Rightarrow> (Inl e, [])
         | Inr d1 \<Rightarrow>
             (case simple_insert table 0 d1 of
                Inl e \<Rightarrow> (Inl e, [d1])
              | Inr d2 \<Rightarrow>
                  (case get_total_count_to_port src table 1 d2 of
                     Inl e \<Rightarrow> (Inl e, [d1, d2])
                   | Inr (already_ported, total_to_port) \<Rightarrow>
                       (Inr (table, already_ported, total_to_port, 1), [d1, d2])))))"

section \<open>Copying: Porter.handle_table\<close>

text \<open>
  \<^verbatim>\<open>
  def insert(txn):
      self.postgres_store.insert_many_txn(txn, table, headers[1:], rows)
      self.postgres_store._simple_update_one_txn(
          txn, table="port_from_sqlite3",
          keyvalues={"table_name": table}, updatevalues={"rowid": next_chunk})
  \<close>
\<close>

definition insert_txn ::
  "string \<Rightarrow> string list \<Rightarrow> val list list \<Rightarrow> int \<Rightarrow> postgres_db \<Rightarrow> error + postgres_db" where
  "insert_txn table headers rows next_chunk d =
     (case insert_many_txn table headers rows d of
        Inl e \<Rightarrow> Inl e
      | Inr d1 \<Rightarrow> simple_update_one_txn table next_chunk d1)"

text \<open>The source rows that a page starting at \<open>next_chunk\<close> can still contain.\<close>

definition remaining_rows :: "sqlite_db \<Rightarrow> string \<Rightarrow> int \<Rightarrow> (int \<times> val list) list" where
  "remaining_rows src table next_chunk =
     (case src table of None \<Rightarrow> [] | Some t \<Rightarrow> [r \<leftarrow> contents t. next_chunk \<le> fst r])"

lemma select_chunk_page:
  assumes "select_chunk table next_chunk batch_size src = Inr (headers, page)"
  shows "set page \<subseteq> set (remaining_rows src table next_chunk)"
proof -
  obtain t where t: "src table = Some t"
    using assms by (cases "src table") (auto simp: select_chunk_def)
  let ?xs = "[r \<leftarrow> contents t. next_chunk \<le> fst r]"
  have "set (sql_limit batch_size (sort_key fst ?xs)) \<subseteq> set (sort_key fst ?xs)"
    by (auto simp: sql_limit_def dest: in_set_takeD)
  then have "set (sql_limit batch_size (sort_key fst ?xs)) \<subseteq> set ?xs"
    by simp
  moreover have "page = sql_limit batch_size (sort_key fst ?xs)"
    using assms t by (simp add: select_chunk_def)
  ultimately show ?thesis using t by (simp add: remaining_rows_def)
qed

lemma remaining_rows_less:
  assumes "r \<in> set (remaining_rows src table next_chunk)"
  shows "length (remaining_rows src table (fst r + 1)) < length (remaining_rows src table next_chunk)"
proof -
  obtain t where t: "src table = Some t"
    using assms by (cases "src table") (auto simp: remaining_rows_def)
  let ?xs = "[x \<leftarrow> contents t. next_chunk \<le> fst x]"
  have r: "r \<in> set ?xs" using assms t by (simp add: remaining_rows_def)
  have "[x \<leftarrow> contents t. fst r + 1 \<le> fst x] = filter (\<lambda>x. fst r + 1 \<le> fst x) ?xs"
    using r by (auto intro!: filter_cong)
  moreover have "length (filter (\<lambda>x. fst r + 1 \<le> fst x) ?xs) < length ?xs"
    using r by (intro length_filter_less[of r]) auto
  ultimately show ?thesis using t by (simp add: remaining_rows_def)
qed

text \<open>
  \<^verbatim>\<open>
  while True:
      def r(txn):
          txn.execute(select, (next_chunk, self.batch_size,))
          rows = txn.fetchall()
          headers = [column[0] for column in txn.description]
          return headers, rows
      headers, rows = yield self.sqlite_store.runInteraction("select", r)
      if rows:
          next_chunk = rows[-1][0] + 1
          self._convert_rows(table, headers, rows)
          def insert(txn): ...
          yield self.postgres_store.execute(insert)
          postgres_size += len(rows)
          self.progress.update(table, postgres_size)
      else:
          return
  \<close>
  The loop returns its outcome and, for each batch it committed, the source rows of
  the batch and the database after the commit, oldest first. The calls of the progress
  sink change neither database and are left out.
\<close>

function copy_loop ::
  "(val \<Rightarrow> val) \<Rightarrow> sqlite_db \<Rightarrow> int \<Rightarrow> string \<Rightarrow> int \<Rightarrow> postgres_db
     \<Rightarrow> (error + unit) \<times> ((int \<times> val list) list \<times> postgres_db) list" where
  "copy_loop enc src batch_size table next_chunk d =
     (case execute (select_chunk table next_chunk batch_size) src of
        Inl e \<Rightarrow> (Inl e, [])
      | Inr (headers, rows) \<Rightarrow>
          if rows \<noteq> [] then
            (case execute (insert_txn table (tl headers)
                    (convert_rows enc table headers (map full_row rows))
                    (fst (last rows) + 1)) d of
               Inl e \<Rightarrow> (Inl e, [])
             | Inr d' \<Rightarrow>
                 (case copy_loop enc src batch_size table (fst (last rows) + 1) d' of
                    (res, commits) \<Rightarrow> (res, (rows, d') # commits)))
          else (Inr (), []))"
  by pat_completeness auto
termination
proof (relation "measure (\<lambda>(enc, src, batch_size, table, next_chunk, d).
                    length (remaining_rows src table next_chunk))")
  show "wf (measure (\<lambda>(enc, src, batch_size, table, next_chunk, d).
                    length (remaining_rows src table next_chunk)))"
    by simp
next
  fix enc :: "val \<Rightarrow> val" and src :: sqlite_db and batch_size :: int and table :: string
    and next_chunk :: int and d d' :: postgres_db and x :: "string list \<times> (int \<times> val list) list"
    and headers rows
  assume sel: "execute (select_chunk table next_chunk batch_size) src = Inr x"
    and x: "(headers, rows) = x" and ne: "rows \<noteq> []"
  from sel x have "select_chunk table next_chunk batch_size src = Inr (headers, rows)"
    by (simp add: execute_eq)
  then have "set rows \<subseteq> set (remaining_rows src table next_chunk)"
    by (rule select_chunk_page)
  with ne have "last rows \<in> set (remaining_rows src table next_chunk)"
    using last_in_set by blast
  then show "((enc, src, batch_size, table, fst (last rows) + 1, d'),
              (enc, src, batch_size, table, next_chunk, d))
             \<in> measure (\<lambda>(enc, src, batch_size, table, next_chunk, d).
                    length (remaining_rows src table next_chunk))"
    by (simp add: remaining_rows_less)
qed

text \<open>
  \<^verbatim>\<open>
  def handle_table(self, table, postgres_size, table_size, next_chunk):
      if not table_size:
          return
      self.progress.add_table(table, postgres_size, table_size)
      ...
  \<close>
\<close>

definition handle_table ::
  "(val \<Rightarrow> val) \<Rightarrow> sqlite_db \<Rightarrow> int \<Rightarrow> plan \<Rightarrow> postgres_db
     \<Rightarrow> (error + unit) \<times> ((int \<times> val list) list \<times> postgres_db) list" where
  "handle_table enc src batch_size res d =
     (case res of (table, postgres_size, table_size, next_chunk) \<Rightarrow>
        if table_size = 0 then (Inr (), [])
        else copy_loop enc src batch_size table next_chunk d)"

section \<open>The whole run: Porter.run\<close>

text \<open>
  Twisted's \<^verbatim>\<open>defer.gatherResults(deferreds, consumeErrors=True)\<close> fires with the
  list of all results when every deferred succeeds, and fails as soon as one of them
  fails; \<^verbatim>\<open>consumeErrors\<close> only keeps the failures of the single deferreds from
  being reported as unhandled. The \<^verbatim>\<open>yield\<close> on it then raises inside \<^verbatim>\<open>run\<close>.
\<close>

fun gatherResults :: "(error + 'a) list \<Rightarrow> error + 'a list" where
  "gatherResults [] = Inr []"
| "gatherResults (Inl e # rs) = Inl e"
| "gatherResults (Inr v # rs) =
     (case gatherResults rs of Inl e \<Rightarrow> Inl e | Inr vs \<Rightarrow> Inr (v # vs))"

text \<open>
  \<^verbatim>\<open>
  if table not in ["schema_version", "applied_schema_deltas"]
  and not table.startswith("sqlite_")
  \<close>
\<close>

definition eligible :: "string \<Rightarrow> bool" where
  "eligible table \<longleftrightarrow>
     table \<notin> set [''schema_version'', ''applied_schema_deltas'']
     \<and> take 7 table \<noteq> ''sqlite_''"

text \<open>
  The tables are planned, and later copied, by one task each; the tasks interleave at
  their database calls. The model runs the tasks of a phase one after the other, in
  the order of the list, each on the database the one before left.
\<close>

fun setup_all ::
  "(val \<Rightarrow> val) \<Rightarrow> int \<Rightarrow> sqlite_db \<Rightarrow> string list \<Rightarrow> postgres_db
     \<Rightarrow> (error + plan) list \<times> postgres_db" where
  "setup_all enc now_ms src [] d = ([], d)"
| "setup_all enc now_ms src (table # tables) d =
     (case setup_table enc now_ms src table d of
        (res, commits) \<Rightarrow>
          (case setup_all enc now_ms src tables (final d commits) of
             (ress, d') \<Rightarrow> (res # ress, d')))"

fun handle_all ::
  "(val \<Rightarrow> val) \<Rightarrow> sqlite_db \<Rightarrow> int \<Rightarrow> plan list \<Rightarrow> postgres_db
     \<Rightarrow> (error + unit) list \<times> postgres_db" where
  "handle_all enc src batch_size [] d = ([], d)"
| "handle_all enc src batch_size (res # ress) d =
     (case handle_table enc src batch_size res d of
        (out, commits) \<Rightarrow>
          (case handle_all enc src batch_size ress (final d (map snd commits)) of
             (outs, d') \<Rightarrow> (out # outs, d')))"

text \<open>
  What a run leaves: \<^verbatim>\<open>end_error_exec_info\<close>, the labels given to
  \<^verbatim>\<open>progress.set_state\<close>, whether \<^verbatim>\<open>progress.done()\<close> was reached, and the
  PostgreSQL database.
\<close>

record run_result =
  end_error :: "error option"
  states :: "string list"
  finished :: bool
  destination :: postgres_db

text \<open>
  \<^verbatim>\<open>
  self.progress.set_state("Setting up")
  # Set up tables.
  setup_res = yield defer.gatherResults(
      [self.setup_table(table) for table in tables
       if table not in ["schema_version", "applied_schema_deltas"]
       and not table.startswith("sqlite_")],
      consumeErrors=True)
  # Process tables.
  yield defer.gatherResults(
      [self.handle_table(*res) for res in setup_res], consumeErrors=True)
  self.progress.done()
  \<close>
  inside \<^verbatim>\<open>try: ... except: end_error_exec_info = sys.exc_info()\<close>.
\<close>

definition setup_and_process ::
  "(val \<Rightarrow> val) \<Rightarrow> int \<Rightarrow> int \<Rightarrow> sqlite_db \<Rightarrow> string list \<Rightarrow> string list \<Rightarrow> postgres_db
     \<Rightarrow> run_result" where
  "setup_and_process enc now_ms batch_size src tables log d =
     (case setup_all enc now_ms src (filter eligible tables) d of
        (setup_results, d1) \<Rightarrow>
          (case gatherResults setup_results of
             Inl e \<Rightarrow>
               \<lparr>end_error = Some e, states = log @ [''Setting up''], finished = False,
                destination = d1\<rparr>
           | Inr setup_res \<Rightarrow>
               (case handle_all enc src batch_size setup_res d1 of
                  (outs, d2) \<Rightarrow>
                    (case gatherResults outs of
                       Inl e \<Rightarrow>
                         \<lparr>end_error = Some e, states = log @ [''Setting up''],
                          finished = False, destination = d2\<rparr>
                     | Inr units \<Rightarrow>
                         \<lparr>end_error = None, states = log @ [''Setting up''],
                          finished = True, destination = d2\<rparr>))))"

text \<open>
  \<^verbatim>\<open>
  tables = set(sqlite_tables) & set(postgres_tables)
  self.progress.set_state("Creating tables")
  ...
  try:
      yield self.postgres_store.runInteraction("create_port_table", create_port_table)
  except Exception as e:
      logger.info("Failed to create port table: %s", e)
  \<close>
  \<open>sqlite_tables\<close> and \<open>postgres_tables\<close> are the table names that the two catalogue
  queries return; the run starts after the two connections are made and prepared.
\<close>

definition run ::
  "(val \<Rightarrow> val) \<Rightarrow> int \<Rightarrow> int \<Rightarrow> sqlite_db \<Rightarrow> string list \<Rightarrow> string list \<Rightarrow> postgres_db
     \<Rightarrow> run_result" where
  "run enc now_ms batch_size src sqlite_tables postgres_tables d =
     (let tables = [t \<leftarrow> remdups sqlite_tables. t \<in> set postgres_tables];
          log = [''Preparing SQLite3'', ''Preparing PostgreSQL'', ''Fetching tables'',
                 ''Creating tables''];
          d1 = (case execute create_port_table d of Inl e \<Rightarrow> d | Inr d' \<Rightarrow> d')
      in setup_and_process enc now_ms batch_size src tables log d1)"

section \<open>An example database\<close>

text \<open>
  A \<^verbatim>\<open>sent_transactions\<close> table with three rows, at the time \<open>T = 200000000\<close>
  (milliseconds): row 1 to destination A, 48 hours old; row 2 to destination A, one
  hour old; row 3 to destination B, 30 hours old. The column \<^verbatim>\<open>id\<close> is the
  \<^verbatim>\<open>INTEGER PRIMARY KEY\<close> of the table, so it holds the rowid. The PostgreSQL
  database has an empty \<^verbatim>\<open>sent_transactions\<close> relation and an empty
  \<^verbatim>\<open>port_from_sqlite3\<close>.
\<close>

definition sent_transactions_columns :: "string list" where
  "sent_transactions_columns =
     [''id'', ''transaction_id'', ''destination'', ''response_code'', ''response_json'', ''ts'']"

definition scenario_table :: sqlite_table where
  "scenario_table = \<lparr>columns = sent_transactions_columns, contents =
     [(1, [VInt 1, VStr ''t1'', VStr ''A'', VInt 200, VStr ''{}'', VInt 27200000]),
      (2, [VInt 2, VStr ''t2'', VStr ''A'', VInt 200, VStr ''{}'', VInt 196400000]),
      (3, [VInt 3, VStr ''t3'', VStr ''B'', VInt 200, VStr ''{}'', VInt 92000000])]\<rparr>"

definition scenario_src :: sqlite_db where
  "scenario_src = [''sent_transactions'' \<mapsto> scenario_table]"

definition scenario_dest :: postgres_db where
  "scenario_dest = \<lparr>port_from_sqlite3 = Some Map.empty,
     relations = [''sent_transactions'' \<mapsto> []], cascade = (\<lambda>t. []), may_create = True\<rparr>"

section \<open>Properties of the retry loop\<close>

text \<open>
  Claim C6. \<^verbatim>\<open>runInteraction\<close> returns the result of the operation; after a
  deadlock error it rolls back and calls the operation again, at most \<open>N = 5\<close> times
  (so the operation is called at most six times), and it re-raises the deadlock of the
  last call; an error that is not a deadlock is re-raised by the call that met it,
  without a retry. There is no delay in the loop: a retry follows the rollback at once.
\<close>

theorem runInteraction_retries:
  assumes "\<forall>j<k. deadlocked (func j)" and "k \<le> 5" and "\<not> deadlocked (func k) \<or> k = 5"
  shows "runInteraction func = (func k, Suc k, k)"
proof -
  have "r_loop func 0 0 = r_loop func (0 + k) (0 + k)"
    using assms(1,2) by (intro r_loop_skip) (simp_all add: N_def)
  also have "\<dots> = (func k, Suc k, k)"
    using assms(3) by (simp add: r_loop_stop N_def del: r_loop.simps)
  finally show ?thesis by (simp add: runInteraction_def)
qed

theorem runInteraction_retries_witness:
  "runInteraction (\<lambda>j. if j < 2 then Inl Deadlock else Inr (7::int)) = (Inr 7, 3, 2)
   \<and> runInteraction (\<lambda>j. (Inl Deadlock :: error + int)) = (Inl Deadlock, 6, 5)
   \<and> runInteraction (\<lambda>j. if j < 1 then Inl Deadlock else (Inl (DatabaseError ''unique'') :: error + int))
       = (Inl (DatabaseError ''unique''), 2, 1)"
  using runInteraction_retries[of 2 "\<lambda>j. if j < 2 then Inl Deadlock else Inr (7::int)"]
    runInteraction_retries[of 5 "\<lambda>j. (Inl Deadlock :: error + int)"]
    runInteraction_retries[of 1 "\<lambda>j. if j < 1 then Inl Deadlock else (Inl (DatabaseError ''unique'') :: error + int)"]
  by simp

section \<open>Properties of the row transform\<close>

lemma mem_bool_cols:
  "j \<in> set (bool_cols table headers) \<longleftrightarrow>
     j < length headers \<and> headers ! j \<in> set (bool_col_names table)"
  by (auto simp: bool_cols_def in_set_enumerate_eq)

lemma filter_enumerate_pos:
  "0 < n \<Longrightarrow> filter (\<lambda>(j, col). 0 < j) (enumerate n xs) = enumerate n xs"
  by (induction xs arbitrary: n) auto

lemma concat_map_if:
  "concat (map (\<lambda>(j, col). if P j then [f j col] else []) ys) =
   map (\<lambda>(j, col). f j col) (filter (\<lambda>(j, col). P j) ys)"
  by (induction ys) auto

lemma convert_row_eq:
  "convert_row enc bcs row = map (\<lambda>(j, col). enc (conv bcs j col)) (enumerate 1 (tl row))"
proof (cases row)
  case Nil
  then show ?thesis by (simp add: convert_row_def)
next
  case (Cons x xs)
  have "convert_row enc bcs row =
      map (\<lambda>(j, col). enc (conv bcs j col)) (filter (\<lambda>(j, col). 0 < j) (enumerate 0 row))"
    unfolding convert_row_def by (rule concat_map_if)
  then show ?thesis using Cons by (simp add: filter_enumerate_pos)
qed

lemma py_bool_cases:
  "py_bool v = (case v of VNull \<Rightarrow> False | VInt n \<Rightarrow> n \<noteq> 0 | VStr s \<Rightarrow> s \<noteq> [] | VBool b \<Rightarrow> b)"
  by (cases v) simp_all

lemma bool_col_names_declared:
  "h \<in> set (bool_col_names table) \<longleftrightarrow>
     (table, h) \<in> {(''events'', ''processed''), (''events'', ''outlier''),
                   (''rooms'', ''is_public''), (''event_edges'', ''is_state''),
                   (''presence_list'', ''accepted'')}"
  by (auto simp: bool_col_names_def BOOLEAN_COLUMNS_def split: if_splits)

text \<open>
  Claim C8. For every row given to \<^verbatim>\<open>_convert_rows\<close>, the value at index 0 (the
  row identifier) is dropped and the value at every other index \<open>j\<close> is written at
  index \<open>j - 1\<close>. When the header at \<open>j\<close> is one of the columns that
  \<^verbatim>\<open>BOOLEAN_COLUMNS\<close> lists for the table (\<^verbatim>\<open>events.processed\<close>,
  \<^verbatim>\<open>events.outlier\<close>, \<^verbatim>\<open>rooms.is_public\<close>, \<^verbatim>\<open>event_edges.is_state\<close>,
  \<^verbatim>\<open>presence_list.accepted\<close>), the value written is a boolean: for an integer
  \<open>n\<close> it is true exactly when \<open>n\<close> is not 0, for \<^verbatim>\<open>None\<close> it is false, for a
  string it is true exactly when the string is not empty. Every other value, and every
  value of a table that the mapping does not list, is written as it is. In all cases
  the value goes through the engine's \<^verbatim>\<open>encode_parameter\<close>.
\<close>

theorem convert_rows_bool:
  assumes "i < length rows" and "0 < j" and "j < length (rows ! i)"
  shows "length (convert_rows enc table headers rows) = length rows
     \<and> length (convert_rows enc table headers rows ! i) = length (rows ! i) - 1
     \<and> convert_rows enc table headers rows ! i ! (j - 1) =
         enc (if j < length headers
                 \<and> (table, headers ! j) \<in>
                     {(''events'', ''processed''), (''events'', ''outlier''),
                      (''rooms'', ''is_public''), (''event_edges'', ''is_state''),
                      (''presence_list'', ''accepted'')}
              then VBool (case rows ! i ! j of
                            VNull \<Rightarrow> False | VInt n \<Rightarrow> n \<noteq> 0
                          | VStr s \<Rightarrow> s \<noteq> [] | VBool b \<Rightarrow> b)
              else rows ! i ! j)"
proof -
  obtain x xs where row: "rows ! i = x # xs" using assms(3) by (cases "rows ! i") auto
  have j: "j - 1 < length xs" using assms(2,3) row by auto
  have n: "xs ! (j - 1) = rows ! i ! j" using assms(2) row by (cases j) auto
  have "convert_rows enc table headers rows ! i ! (j - 1) =
         enc (if j < length headers \<and> headers ! j \<in> set (bool_col_names table)
              then VBool (py_bool (rows ! i ! j)) else rows ! i ! j)"
    using assms(1,2) j n
    by (simp add: convert_rows_def convert_row_eq row nth_enumerate_eq conv_def mem_bool_cols)
  moreover have "length (convert_rows enc table headers rows) = length rows"
    by (simp add: convert_rows_def)
  moreover have "length (convert_rows enc table headers rows ! i) = length (rows ! i) - 1"
    using assms(1) by (simp add: convert_rows_def convert_row_eq row)
  ultimately show ?thesis
    unfolding bool_col_names_declared py_bool_cases by simp
qed

theorem convert_rows_bool_witness:
  "convert_rows id ''events'' [''rowid'', ''event_id'', ''processed'', ''outlier'']
     [[VInt 7, VStr ''e'', VInt 1, VInt 0]] ! 0 ! (1 - 1) = VStr ''e''
   \<and> convert_rows id ''events'' [''rowid'', ''event_id'', ''processed'', ''outlier'']
     [[VInt 7, VStr ''e'', VInt 1, VInt 0]] ! 0 ! (2 - 1) = VBool True
   \<and> convert_rows id ''events'' [''rowid'', ''event_id'', ''processed'', ''outlier'']
     [[VInt 7, VStr ''e'', VInt 1, VInt 0]] ! 0 ! (3 - 1) = VBool False
   \<and> length (convert_rows id ''events'' [''rowid'', ''event_id'', ''processed'', ''outlier'']
     [[VInt 7, VStr ''e'', VInt 1, VInt 0]] ! 0) = 3
   \<and> convert_rows id ''rooms'' [''rowid'', ''room_id'', ''is_public'', ''creator'']
     [[VInt 1, VStr ''r'', VInt 0, VStr ''u''], [VInt 2, VStr ''s'', VInt 5, VNull]] ! 0 ! (2 - 1)
       = VBool False
   \<and> convert_rows id ''rooms'' [''rowid'', ''room_id'', ''is_public'', ''creator'']
     [[VInt 1, VStr ''r'', VInt 0, VStr ''u''], [VInt 2, VStr ''s'', VInt 5, VNull]] ! 1 ! (2 - 1)
       = VBool True
   \<and> convert_rows id ''rooms'' [''rowid'', ''room_id'', ''is_public'', ''creator'']
     [[VInt 1, VStr ''r'', VInt 0, VStr ''u''], [VInt 2, VStr ''s'', VInt 5, VNull]] ! 1 ! (3 - 1)
       = VNull
   \<and> convert_rows id ''users'' [''rowid'', ''name'', ''processed'']
     [[VInt 3, VStr ''u'', VInt 0]] ! 0 ! (2 - 1) = VInt 0"
  using convert_rows_bool[of 0 "[[VInt 7, VStr ''e'', VInt 1, VInt 0]]" 1 id "''events''"
      "[''rowid'', ''event_id'', ''processed'', ''outlier'']"]
    convert_rows_bool[of 0 "[[VInt 7, VStr ''e'', VInt 1, VInt 0]]" 2 id "''events''"
      "[''rowid'', ''event_id'', ''processed'', ''outlier'']"]
    convert_rows_bool[of 0 "[[VInt 7, VStr ''e'', VInt 1, VInt 0]]" 3 id "''events''"
      "[''rowid'', ''event_id'', ''processed'', ''outlier'']"]
    convert_rows_bool[of 0
      "[[VInt 1, VStr ''r'', VInt 0, VStr ''u''], [VInt 2, VStr ''s'', VInt 5, VNull]]" 2 id
      "''rooms''" "[''rowid'', ''room_id'', ''is_public'', ''creator'']"]
    convert_rows_bool[of 1
      "[[VInt 1, VStr ''r'', VInt 0, VStr ''u''], [VInt 2, VStr ''s'', VInt 5, VNull]]" 2 id
      "''rooms''" "[''rowid'', ''room_id'', ''is_public'', ''creator'']"]
    convert_rows_bool[of 1
      "[[VInt 1, VStr ''r'', VInt 0, VStr ''u''], [VInt 2, VStr ''s'', VInt 5, VNull]]" 3 id
      "''rooms''" "[''rowid'', ''room_id'', ''is_public'', ''creator'']"]
    convert_rows_bool[of 0 "[[VInt 3, VStr ''u'', VInt 0]]" 2 id "''users''"
      "[''rowid'', ''name'', ''processed'']"]
  by simp

section \<open>Properties of the first-time setup of sent_transactions\<close>

lemma index_of_nth:
  "distinct xs \<Longrightarrow> i < length xs \<Longrightarrow> index_of xs (xs ! i) = Some i"
proof (induction xs arbitrary: i)
  case Nil
  then show ?case by simp
next
  case (Cons y ys)
  then show ?case by (cases i) auto
qed

lemma index_of_Some: "index_of xs x = Some i \<Longrightarrow> i < length xs \<and> xs ! i = x"
  by (induction xs arbitrary: i) (auto split: if_splits)

lemma index_of_rowid_ts:
  "index_of (''rowid'' # cols) ''ts'' = map_option Suc (index_of cols ''ts'')"
  by simp

lemma full_row_Suc: "full_row r ! Suc i = snd r ! i"
  by (simp add: full_row_def)

lemma max_rowid_by_destination_iff:
  assumes "distinct (map fst rows)" and "r \<in> set rows"
  shows "fst r \<in> set (max_rowid_by_destination di rows) \<longleftrightarrow>
         (\<forall>r' \<in> set rows. snd r' ! di = snd r ! di \<longrightarrow> fst r' \<le> fst r)"
proof
  assume "fst r \<in> set (max_rowid_by_destination di rows)"
  then obtain dest where m: "fst r = Max (set [fst x. x \<leftarrow> rows, snd x ! di = dest])"
    and dest: "dest \<in> set [snd x ! di. x \<leftarrow> rows]"
    by (auto simp: max_rowid_by_destination_def)
  let ?G = "set [fst x. x \<leftarrow> rows, snd x ! di = dest]"
  have G: "?G = fst ` {x \<in> set rows. snd x ! di = dest}" by auto
  from dest obtain x0 where "x0 \<in> set rows" "snd x0 ! di = dest" by auto
  then have "fst x0 \<in> ?G" unfolding G by blast
  then have ne: "?G \<noteq> {}" by (metis empty_iff)
  have "Max ?G \<in> ?G" using ne by (intro Max_in) simp_all
  then obtain x where x: "x \<in> set rows" "snd x ! di = dest" "fst x = fst r"
    using m by (auto simp: G)
  have "inj_on fst (set rows)" using assms(1) by (simp add: distinct_map)
  then have "x = r" using x(1,3) assms(2) by (auto dest: inj_onD)
  then have d: "snd r ! di = dest" using x(2) by simp
  show "\<forall>r' \<in> set rows. snd r' ! di = snd r ! di \<longrightarrow> fst r' \<le> fst r"
  proof (intro ballI impI)
    fix r' assume "r' \<in> set rows" "snd r' ! di = snd r ! di"
    then have "fst r' \<in> ?G" using d by (auto simp: G)
    then have "fst r' \<le> Max ?G" by (intro Max_ge) simp_all
    then show "fst r' \<le> fst r" using m by simp
  qed
next
  assume a: "\<forall>r' \<in> set rows. snd r' ! di = snd r ! di \<longrightarrow> fst r' \<le> fst r"
  let ?G = "set [fst x. x \<leftarrow> rows, snd x ! di = snd r ! di]"
  have G: "?G = fst ` {x \<in> set rows. snd x ! di = snd r ! di}" by auto
  have "Max ?G = fst r"
  proof (rule Max_eqI)
    show "finite ?G" by simp
    show "fst r \<in> ?G" using assms(2) by (auto simp: G)
    fix y assume "y \<in> ?G" then show "y \<le> fst r" using a by (auto simp: G)
  qed
  then show "fst r \<in> set (max_rowid_by_destination di rows)"
    using assms(2) by (force simp: max_rowid_by_destination_def)
qed

text \<open>The rows of the first-time selection.\<close>

lemma r_sent_rows:
  assumes "src ''sent_transactions'' = Some t" and "distinct (map fst (contents t))"
    and "index_of (columns t) ''destination'' = Some di"
    and "index_of (columns t) ''ts'' = Some ti"
  shows "r_sent yesterday src =
     Inr (''rowid'' # columns t,
          [r \<leftarrow> contents t.
             (\<forall>r' \<in> set (contents t). snd r' ! di = snd r ! di \<longrightarrow> fst r' \<le> fst r)
             \<and> py_lt_int (snd r ! ti) yesterday])"
proof -
  have d: "distinct (map fst (contents t))" using assms(2) .
  have "[r \<leftarrow> contents t. fst r \<in> set (max_rowid_by_destination di (contents t))] =
        [r \<leftarrow> contents t. \<forall>r' \<in> set (contents t). snd r' ! di = snd r ! di \<longrightarrow> fst r' \<le> fst r]"
    by (rule filter_cong) (simp_all add: max_rowid_by_destination_iff[OF d])
  then show ?thesis using assms(1,3,4)
    by (simp add: r_sent_def select_max_rows_def full_row_Suc)
qed

lemma bool_col_names_sent: "bool_col_names ''sent_transactions'' = []"
  by (simp add: bool_col_names_def BOOLEAN_COLUMNS_def)

lemma enumerate_map_snd: "map (\<lambda>(j, col). f col) (enumerate n xs) = map f xs"
  by (induction xs arbitrary: n) auto

lemma convert_rows_sent:
  "convert_rows enc ''sent_transactions'' headers rows = map (\<lambda>row. map enc (tl row)) rows"
  by (simp add: convert_rows_def convert_row_eq bool_cols_def bool_col_names_sent conv_def
      enumerate_map_snd)

lemma py_lt_VInt: "py_lt (VInt a) (VInt b) = (a < b)"
  by (simp add: py_lt_def)

lemma fold_py_max_VInt:
  "fold (\<lambda>item m. if py_lt m item then item else m) (map VInt ys) (VInt m) =
   VInt (Max (insert m (set ys)))"
proof (induction ys arbitrary: m)
  case Nil
  then show ?case by simp
next
  case (Cons y ys)
  have "Max (insert (max m y) (set ys)) = Max (insert m (insert y (set ys)))"
    by (metis List.finite_set Max_insert Max_singleton finite_insert insert_not_empty max.assoc max.commute)
  then show ?case using Cons.IH[of "max m y"] 
    by (auto simp: py_lt_VInt max_def)
qed

lemma py_max_VInt: "ys \<noteq> [] \<Longrightarrow> py_max (map VInt ys) = Inr (VInt (Max (set ys)))"
  by (cases ys) (simp_all add: fold_py_max_VInt)

lemma hd_sort_key_Min:
  assumes "sort_key f xs = r # rest"
  shows "f r = Min (f ` set xs)"
proof (rule Min_eqI[symmetric])
  have s: "set xs = set (r # rest)" using assms by (metis set_sort)
  show "finite (f ` set xs)" by simp
  show "f r \<in> f ` set xs" using s by simp
  fix y assume "y \<in> f ` set xs"
  then obtain x where x: "x \<in> set (r # rest)" "y = f x" using s by auto
  have "sorted (map f (r # rest))" using assms by (metis sorted_sort_key)
  then show "f r \<le> y" using x by auto
qed

lemma get_start_id_eq:
  assumes "src ''sent_transactions'' = Some t" and "index_of (columns t) ''ts'' = Some ti"
  shows "get_start_id yesterday src =
     Inr (if rows_since yesterday t ti = [] then 1
          else Min (fst ` set (rows_since yesterday t ti)))"
proof (cases "sort_key fst (rows_since yesterday t ti)")
  case Nil
  then have "rows_since yesterday t ti = []" by (metis length_sort list.size(3) length_0_conv)
  with Nil show ?thesis using assms by (simp add: get_start_id_def sql_limit_def)
next
  case (Cons r rest)
  then have "rows_since yesterday t ti \<noteq> []" by (metis sort_key_simps(1) list.distinct(1))
  with Cons hd_sort_key_Min[OF Cons] show ?thesis
    using assms by (simp add: get_start_id_def sql_limit_def)
qed

lemma r_sent_explicit:
  assumes "src ''sent_transactions'' = Some t"
    and "distinct (map fst (contents t))" and "distinct (columns t)"
    and "di < length (columns t)" and "columns t ! di = ''destination''"
    and "ti < length (columns t)" and "columns t ! ti = ''ts''"
  shows "r_sent yesterday src =
     Inr (''rowid'' # columns t,
          [r \<leftarrow> contents t.
             (\<forall>r' \<in> set (contents t). snd r' ! di = snd r ! di \<longrightarrow> fst r' \<le> fst r)
             \<and> py_lt_int (snd r ! ti) yesterday])"
proof -
  have "index_of (columns t) ''destination'' = Some di"
    using index_of_nth[OF assms(3,4)] assms(5) by simp
  moreover have "index_of (columns t) ''ts'' = Some ti"
    using index_of_nth[OF assms(3,6)] assms(7) by simp
  ultimately show ?thesis using assms(1,2) by (rule r_sent_rows[rotated 2])
qed



lemma py_lt_int_cases:
  "py_lt_int v y = (case v of VNull \<Rightarrow> True | VInt n \<Rightarrow> n < y
                    | VStr s \<Rightarrow> False | VBool b \<Rightarrow> (if b then 1 else 0) < y)"
  by (cases v) simp_all

lemma py_max_nonempty: "xs \<noteq> [] \<Longrightarrow> \<exists>m. py_max xs = Inr m"
  by (cases xs) simp_all

lemma simple_insert_Inr:
  assumes "simple_insert table v d = Inr d'"
  shows "\<exists>p. port_from_sqlite3 d = Some p \<and> p table = None
           \<and> d' = d\<lparr>port_from_sqlite3 := Some (p(table \<mapsto> v))\<rparr>"
  using assms
  by (auto simp: simple_insert_def execute_eq simple_insert_txn_def split: option.splits)

lemma converted_sent_rows:
  "convert_rows enc ''sent_transactions'' headers (map full_row sel) =
   map (\<lambda>r. map enc (snd r)) sel"
  by (simp add: convert_rows_sent full_row_def)

lemma setup_sent_transactions_commits:
  assumes "r_sent (now_ms - 86400000) src = Inr (headers, sel)" and "sel \<noteq> []"
    and "relations d ''sent_transactions'' = Some old"
  shows "\<exists>d1 rest. snd (setup_sent_transactions enc now_ms src d) = d1 # rest
        \<and> (\<forall>d' \<in> set (d1 # rest). relations d' ''sent_transactions'' =
              Some (old @ map (\<lambda>r. map enc (snd r)) sel))"
proof -
  obtain m where m: "py_max (map (\<lambda>r. r ! 0) (map (\<lambda>r. map enc (snd r)) sel)) = Inr m"
    using py_max_nonempty[of "map (\<lambda>r. r ! 0) (map (\<lambda>r. map enc (snd r)) sel)"] assms(2)
    by auto
  show ?thesis
    using assms(1,3) m
    by (auto simp: setup_sent_transactions_def execute_eq converted_sent_rows
        insert_many_txn_def Let_def dest!: simple_insert_Inr split: sum.splits prod.splits)
qed


text \<open>
  Claim C1, as the program has it. On the first-time setup of \<^verbatim>\<open>sent_transactions\<close>
  the rows written first are the rows that have the greatest rowid among all the rows
  of their destination, whatever their age, and of these only the rows whose timestamp
  is older than 24 hours (\<open>ts < now_ms - 86400000\<close>; a \<^verbatim>\<open>NULL\<close> timestamp counts as
  older). They are appended to the relation by the first transaction, without their
  rowid and with every value passed through \<^verbatim>\<open>encode_parameter\<close>, and the later
  transaction of the setup leaves the relation as it is.
\<close>

theorem setup_sent_transactions_initial_rows:
  assumes "src ''sent_transactions'' = Some t"
    and "distinct (map fst (contents t))" and "distinct (columns t)"
    and "di < length (columns t)" and "columns t ! di = ''destination''"
    and "ti < length (columns t)" and "columns t ! ti = ''ts''"
    and "relations d ''sent_transactions'' = Some old"
    and "sel = [r \<leftarrow> contents t.
           (\<forall>r' \<in> set (contents t). snd r' ! di = snd r ! di \<longrightarrow> fst r' \<le> fst r)
           \<and> (case snd r ! ti of VNull \<Rightarrow> True | VInt n \<Rightarrow> n < now_ms - 86400000
               | VStr s \<Rightarrow> False | VBool b \<Rightarrow> (if b then 1 else 0) < now_ms - 86400000)]"
    and "sel \<noteq> []"
  shows "\<exists>d1 rest. snd (setup_sent_transactions enc now_ms src d) = d1 # rest
        \<and> (\<forall>d' \<in> set (d1 # rest). relations d' ''sent_transactions'' =
              Some (old @ map (\<lambda>r. map enc (snd r)) sel))"
proof -
  have "r_sent (now_ms - 86400000) src = Inr (''rowid'' # columns t, sel)"
    using r_sent_explicit[of src t di ti "now_ms - 86400000"] assms(1-7,9)
    by (simp add: py_lt_int_cases)
  then show ?thesis using assms(10,8) by (rule setup_sent_transactions_commits)
qed

theorem setup_sent_transactions_initial_rows_witness:
  "(\<exists>d1 rest. snd (setup_sent_transactions id 200000000 scenario_src scenario_dest) = d1 # rest
        \<and> (\<forall>d' \<in> set (d1 # rest). relations d' ''sent_transactions'' =
              Some [[VInt 3, VStr ''t3'', VStr ''B'', VInt 200, VStr ''{}'', VInt 92000000]]))
   \<and> (\<exists>d1 rest. snd (setup_sent_transactions id 200000000
          [''sent_transactions'' \<mapsto> \<lparr>columns = [''id'', ''destination'', ''ts''], contents =
             [(1, [VInt 1, VStr ''A'', VInt 27200000]),
              (2, [VInt 2, VStr ''B'', VNull]),
              (3, [VInt 3, VStr ''C'', VInt 196400000]),
              (4, [VInt 4, VStr ''D'', VInt 27200000]),
              (5, [VInt 5, VStr ''D'', VInt 27200001])]\<rparr>]
          (scenario_dest\<lparr>relations := [''sent_transactions'' \<mapsto> [[VInt 9, VStr ''Z'', VInt 0]]]\<rparr>))
            = d1 # rest
        \<and> (\<forall>d' \<in> set (d1 # rest). relations d' ''sent_transactions'' =
              Some [[VInt 9, VStr ''Z'', VInt 0], [VInt 1, VStr ''A'', VInt 27200000],
                    [VInt 2, VStr ''B'', VNull], [VInt 5, VStr ''D'', VInt 27200001]]))"
proof -
  have h1: "scenario_src ''sent_transactions'' = Some scenario_table"
    by (simp add: scenario_src_def)
  have h2: "distinct (map fst (contents scenario_table))"
    by (simp add: scenario_table_def)
  have h3: "distinct (columns scenario_table)"
    by (simp add: scenario_table_def sent_transactions_columns_def)
  have h4: "2 < length (columns scenario_table)" "columns scenario_table ! 2 = ''destination''"
    "5 < length (columns scenario_table)" "columns scenario_table ! 5 = ''ts''"
    by (simp_all add: scenario_table_def sent_transactions_columns_def)
  have h5: "relations scenario_dest ''sent_transactions'' = Some []"
    by (simp add: scenario_dest_def)
  have h6: "[(3, [VInt 3, VStr ''t3'', VStr ''B'', VInt 200, VStr ''{}'', VInt 92000000])] =
      [r \<leftarrow> contents scenario_table.
           (\<forall>r' \<in> set (contents scenario_table). snd r' ! 2 = snd r ! 2 \<longrightarrow> fst r' \<le> fst r)
           \<and> (case snd r ! 5 of VNull \<Rightarrow> True | VInt n \<Rightarrow> n < 200000000 - 86400000
               | VStr s \<Rightarrow> False
               | VBool b \<Rightarrow> (if b then 1 else 0) < (200000000::int) - 86400000)]"
    by (simp add: scenario_table_def)
  let ?t = "\<lparr>columns = [''id'', ''destination'', ''ts''], contents =
             [(1, [VInt 1, VStr ''A'', VInt 27200000]),
              (2, [VInt 2, VStr ''B'', VNull]),
              (3, [VInt 3, VStr ''C'', VInt 196400000]),
              (4, [VInt 4, VStr ''D'', VInt 27200000]),
              (5, [VInt 5, VStr ''D'', VInt 27200001])]\<rparr>"
  let ?d = "scenario_dest\<lparr>relations := [''sent_transactions'' \<mapsto> [[VInt 9, VStr ''Z'', VInt 0]]]\<rparr>"
  let ?sel = "[(1, [VInt 1, VStr ''A'', VInt 27200000]), (2, [VInt 2, VStr ''B'', VNull]),
              (5, [VInt 5, VStr ''D'', VInt 27200001])]"
  have g1: "[''sent_transactions'' \<mapsto> ?t] ''sent_transactions'' = Some ?t" by simp
  have g2: "distinct (map fst (contents ?t))" by simp
  have g3: "distinct (columns ?t)" by simp
  have g4: "1 < length (columns ?t)" "columns ?t ! 1 = ''destination''"
    "2 < length (columns ?t)" "columns ?t ! 2 = ''ts''"
    by simp_all
  have g5: "relations ?d ''sent_transactions'' = Some [[VInt 9, VStr ''Z'', VInt 0]]"
    by simp
  have g6: "?sel =
      [r \<leftarrow> contents ?t.
           (\<forall>r' \<in> set (contents ?t). snd r' ! 1 = snd r ! 1 \<longrightarrow> fst r' \<le> fst r)
           \<and> (case snd r ! 2 of VNull \<Rightarrow> True | VInt n \<Rightarrow> n < 200000000 - 86400000
               | VStr s \<Rightarrow> False
               | VBool b \<Rightarrow> (if b then 1 else 0) < (200000000::int) - 86400000)]"
    by simp
  show ?thesis
    using setup_sent_transactions_initial_rows[of scenario_src scenario_table 2 5 scenario_dest "[]"
        "[(3, [VInt 3, VStr ''t3'', VStr ''B'', VInt 200, VStr ''{}'', VInt 92000000])]"
        200000000 id, OF h1 h2 h3 h4 h5 h6]
      setup_sent_transactions_initial_rows[of "[''sent_transactions'' \<mapsto> ?t]" ?t 1 2 ?d
        "[[VInt 9, VStr ''Z'', VInt 0]]" ?sel 200000000 id, OF g1 g2 g3 g4 g5 g6]
    by simp
qed

text \<open>
  In the example the rows written first are row 3 alone (destination B, 30 hours old):
  row 2, the latest of destination A, is one hour old and is left out.
\<close>

theorem setup_sent_transactions_scenario_rows:
  "map (\<lambda>d. relations d ''sent_transactions'')
     (snd (setup_sent_transactions id 200000000 scenario_src scenario_dest)) =
   [Some [[VInt 3, VStr ''t3'', VStr ''B'', VInt 200, VStr ''{}'', VInt 92000000]],
    Some [[VInt 3, VStr ''t3'', VStr ''B'', VInt 200, VStr ''{}'', VInt 92000000]]]"
  by code_simp

lemma sql_ge_int_cases:
  "sql_ge_int v y = (case v of VNull \<Rightarrow> False | VInt n \<Rightarrow> y \<le> n
                    | VStr s \<Rightarrow> True | VBool b \<Rightarrow> y \<le> (if b then 1 else 0))"
  by (cases v) simp_all

lemma get_sent_table_size_eq:
  assumes "src ''sent_transactions'' = Some t" and "index_of (columns t) ''ts'' = Some ti"
  shows "get_sent_table_size yesterday src = Inr (int (length (rows_since yesterday t ti)))"
  using assms by (simp add: get_sent_table_size_def)

lemma setup_sent_transactions_result:
  assumes r: "r_sent (now_ms - 86400000) src = Inr (headers, sel)" and ne: "sel \<noteq> []"
    and first: "\<forall>r \<in> set sel. \<exists>vs. snd r = VInt (fst r) # vs"
    and enc: "\<forall>n. enc (VInt n) = VInt n"
    and start: "get_start_id (now_ms - 86400000) src = Inr start_id"
    and size: "get_sent_table_size (now_ms - 86400000) src = Inr remaining"
    and p: "port_from_sqlite3 d = Some p" "p ''sent_transactions'' = None"
    and old: "relations d ''sent_transactions'' = Some old"
  shows "setup_sent_transactions enc now_ms src d =
     (Inr (max (Max (fst ` set sel) + 1) start_id, int (length sel), remaining + int (length sel)),
      [d\<lparr>relations := (relations d)(''sent_transactions'' \<mapsto>
             old @ map (\<lambda>r. map enc (snd r)) sel)\<rparr>,
       d\<lparr>relations := (relations d)(''sent_transactions'' \<mapsto>
             old @ map (\<lambda>r. map enc (snd r)) sel),
         port_from_sqlite3 := Some (p(''sent_transactions'' \<mapsto>
             max (Max (fst ` set sel) + 1) start_id))\<rparr>])"
proof -
  have e: "map (\<lambda>r. r ! 0) (map (\<lambda>r. map enc (snd r)) sel) = map VInt (map fst sel)"
    using first enc by auto
  have m: "py_max (map (\<lambda>r. r ! 0) (map (\<lambda>r. map enc (snd r)) sel)) =
      Inr (VInt (Max (fst ` set sel)))"
    unfolding e using py_max_VInt[of "map fst sel"] ne by simp
  show ?thesis
    using r m start size p old
    by (simp add: setup_sent_transactions_def execute_eq converted_sent_rows
        insert_many_txn_def simple_insert_def simple_insert_txn_def Let_def)
qed


text \<open>
  Claim C5, as the program has it. After the first-time setup of
  \<^verbatim>\<open>sent_transactions\<close> has written its selection \<open>sel\<close> (the rows with the
  greatest rowid of their destination that are older than 24 hours), the value stored
  in \<^verbatim>\<open>port_from_sqlite3\<close>, which is also the returned \<^verbatim>\<open>next_chunk\<close>, is the
  larger of: the greatest rowid of \<open>sel\<close> plus one, and the smallest rowid among the
  rows \<open>recent\<close> whose timestamp is at least \<open>now_ms - 86400000\<close>, or 1 when there
  is no such row. The program reads the rowid of a written row from its first column,
  so the first column of the table is taken to hold the rowid, and
  \<^verbatim>\<open>encode_parameter\<close> to leave integers as they are. The setup returns
  \<open>(next_chunk, length sel, length recent + length sel)\<close> after two transactions:
  the insertion of the rows, then the insertion of the bookkeeping row.
\<close>

theorem setup_sent_transactions_cursor:
  assumes "src ''sent_transactions'' = Some t"
    and "distinct (map fst (contents t))" and "distinct (columns t)"
    and "di < length (columns t)" and "columns t ! di = ''destination''"
    and "ti < length (columns t)" and "columns t ! ti = ''ts''"
    and "\<forall>r \<in> set (contents t). \<exists>vs. snd r = VInt (fst r) # vs"
    and "\<forall>n. enc (VInt n) = VInt n"
    and "port_from_sqlite3 d = Some p" and "p ''sent_transactions'' = None"
    and "relations d ''sent_transactions'' = Some old"
    and "sel = [r \<leftarrow> contents t.
           (\<forall>r' \<in> set (contents t). snd r' ! di = snd r ! di \<longrightarrow> fst r' \<le> fst r)
           \<and> (case snd r ! ti of VNull \<Rightarrow> True | VInt n \<Rightarrow> n < now_ms - 86400000
               | VStr s \<Rightarrow> False | VBool b \<Rightarrow> (if b then 1 else 0) < now_ms - 86400000)]"
    and "sel \<noteq> []"
    and "recent = [r \<leftarrow> contents t.
           case snd r ! ti of VNull \<Rightarrow> False | VInt n \<Rightarrow> now_ms - 86400000 \<le> n
           | VStr s \<Rightarrow> True | VBool b \<Rightarrow> now_ms - 86400000 \<le> (if b then 1 else 0)]"
    and "next_chunk = max (Max (fst ` set sel) + 1)
                          (if recent = [] then 1 else Min (fst ` set recent))"
  shows "setup_sent_transactions enc now_ms src d =
     (Inr (next_chunk, int (length sel), int (length recent) + int (length sel)),
      [d\<lparr>relations := (relations d)(''sent_transactions'' \<mapsto>
             old @ map (\<lambda>r. map enc (snd r)) sel)\<rparr>,
       d\<lparr>relations := (relations d)(''sent_transactions'' \<mapsto>
             old @ map (\<lambda>r. map enc (snd r)) sel),
         port_from_sqlite3 := Some (p(''sent_transactions'' \<mapsto> next_chunk))\<rparr>])"
proof -
  have ti: "index_of (columns t) ''ts'' = Some ti"
    using index_of_nth[OF assms(3,6)] assms(7) by simp
  have rs: "rows_since (now_ms - 86400000) t ti = recent"
    using assms(15) by (simp add: rows_since_def sql_ge_int_cases)
  have r: "r_sent (now_ms - 86400000) src = Inr (''rowid'' # columns t, sel)"
    using r_sent_explicit[of src t di ti "now_ms - 86400000"] assms(1-7,13)
    by (simp add: py_lt_int_cases)
  have first: "\<forall>r \<in> set sel. \<exists>vs. snd r = VInt (fst r) # vs"
    using assms(8,13) by simp
  have start: "get_start_id (now_ms - 86400000) src =
      Inr (if recent = [] then 1 else Min (fst ` set recent))"
    using get_start_id_eq[of src t ti "now_ms - 86400000"] assms(1) ti rs by simp
  have size: "get_sent_table_size (now_ms - 86400000) src = Inr (int (length recent))"
    using get_sent_table_size_eq[of src t ti "now_ms - 86400000"] assms(1) ti rs by simp
  show ?thesis
    unfolding assms(16)
    using setup_sent_transactions_result[of now_ms src "''rowid'' # columns t" sel enc
        "if recent = [] then 1 else Min (fst ` set recent)" "int (length recent)" d p old]
      r assms(14) first assms(9) start size assms(10,11,12)
    by simp
qed


theorem setup_sent_transactions_cursor_witness:
  "setup_sent_transactions id 200000000 scenario_src scenario_dest =
     (Inr (4, 1, 2),
      [scenario_dest\<lparr>relations := (relations scenario_dest)(''sent_transactions'' \<mapsto>
          [[VInt 3, VStr ''t3'', VStr ''B'', VInt 200, VStr ''{}'', VInt 92000000]])\<rparr>,
       scenario_dest\<lparr>relations := (relations scenario_dest)(''sent_transactions'' \<mapsto>
          [[VInt 3, VStr ''t3'', VStr ''B'', VInt 200, VStr ''{}'', VInt 92000000]]),
         port_from_sqlite3 := Some [''sent_transactions'' \<mapsto> 4]\<rparr>])
   \<and> fst (setup_sent_transactions id 200000000
          [''sent_transactions'' \<mapsto> \<lparr>columns = [''id'', ''destination'', ''ts''], contents =
             [(1, [VInt 1, VStr ''A'', VInt 27200000]),
              (5, [VInt 5, VStr ''B'', VInt 196400000]),
              (7, [VInt 7, VStr ''B'', VInt 196400001])]\<rparr>] scenario_dest) = Inr (5, 1, 3)
   \<and> fst (setup_sent_transactions id 200000000
          [''sent_transactions'' \<mapsto> \<lparr>columns = [''id'', ''destination'', ''ts''], contents =
             [(1, [VInt 1, VStr ''A'', VInt 27200000]),
              (2, [VInt 2, VStr ''A'', VInt 27200001])]\<rparr>] scenario_dest) = Inr (3, 1, 1)"
proof -
  let ?row3 = "(3::int, [VInt 3, VStr ''t3'', VStr ''B'', VInt 200, VStr ''{}'', VInt 92000000])"
  let ?row2 = "(2::int, [VInt 2, VStr ''t2'', VStr ''A'', VInt 200, VStr ''{}'', VInt 196400000])"
  let ?t = "\<lparr>columns = [''id'', ''destination'', ''ts''], contents =
             [(1, [VInt 1, VStr ''A'', VInt 27200000]),
              (5, [VInt 5, VStr ''B'', VInt 196400000]),
              (7, [VInt 7, VStr ''B'', VInt 196400001])]\<rparr>"
  let ?u = "\<lparr>columns = [''id'', ''destination'', ''ts''], contents =
             [(1, [VInt 1, VStr ''A'', VInt 27200000]),
              (2, [VInt 2, VStr ''A'', VInt 27200001])]\<rparr>"
  have s1: "scenario_src ''sent_transactions'' = Some scenario_table"
    by (simp add: scenario_src_def)
  have s2: "distinct (map fst (contents scenario_table))" by (simp add: scenario_table_def sent_transactions_columns_def)
  have s3: "distinct (columns scenario_table)" by (simp add: scenario_table_def sent_transactions_columns_def)
  have s4: "2 < length (columns scenario_table)" "columns scenario_table ! 2 = ''destination''"
    "5 < length (columns scenario_table)" "columns scenario_table ! 5 = ''ts''"
    by (simp_all add: scenario_table_def sent_transactions_columns_def)
  have s5: "\<forall>r \<in> set (contents scenario_table). \<exists>vs. snd r = VInt (fst r) # vs" by (simp add: scenario_table_def sent_transactions_columns_def)
  have s6: "\<forall>n. id (VInt n) = VInt n" by simp
  have s7: "port_from_sqlite3 scenario_dest = Some Map.empty" "Map.empty ''sent_transactions'' = None"
    "relations scenario_dest ''sent_transactions'' = Some []"
    by (simp_all add: scenario_dest_def)
  have s8: "[?row3] =
      [r \<leftarrow> contents scenario_table.
           (\<forall>r' \<in> set (contents scenario_table). snd r' ! 2 = snd r ! 2 \<longrightarrow> fst r' \<le> fst r)
           \<and> (case snd r ! 5 of VNull \<Rightarrow> True | VInt n \<Rightarrow> n < 200000000 - 86400000
               | VStr s \<Rightarrow> False
               | VBool b \<Rightarrow> (if b then 1 else 0) < (200000000::int) - 86400000)]"
    by (simp add: scenario_table_def sent_transactions_columns_def)
  have s9: "[?row3] \<noteq> []" by simp
  have s10: "[?row2] =
      [r \<leftarrow> contents scenario_table.
           case snd r ! 5 of VNull \<Rightarrow> False | VInt n \<Rightarrow> 200000000 - 86400000 \<le> n
           | VStr s \<Rightarrow> True
           | VBool b \<Rightarrow> (200000000::int) - 86400000 \<le> (if b then 1 else 0)]"
    by (simp add: scenario_table_def sent_transactions_columns_def)
  have s11: "(4::int) = max (Max (fst ` set [?row3]) + 1)
                          (if [?row2] = [] then 1 else Min (fst ` set [?row2]))"
    by simp
  have t1: "[''sent_transactions'' \<mapsto> ?t] ''sent_transactions'' = Some ?t" by simp
  have t2: "distinct (map fst (contents ?t))" by simp
  have t3: "distinct (columns ?t)" by simp
  have t4: "1 < length (columns ?t)" "columns ?t ! 1 = ''destination''"
    "2 < length (columns ?t)" "columns ?t ! 2 = ''ts''"
    by simp_all
  have t5: "\<forall>r \<in> set (contents ?t). \<exists>vs. snd r = VInt (fst r) # vs" by simp
  have t6: "\<forall>n. id (VInt n) = VInt n" by simp
  have t7: "port_from_sqlite3 scenario_dest = Some Map.empty" "Map.empty ''sent_transactions'' = None"
    "relations scenario_dest ''sent_transactions'' = Some []"
    by (simp_all add: scenario_dest_def)
  have t8: "[(1::int, [VInt 1, VStr ''A'', VInt 27200000])] =
      [r \<leftarrow> contents ?t.
           (\<forall>r' \<in> set (contents ?t). snd r' ! 1 = snd r ! 1 \<longrightarrow> fst r' \<le> fst r)
           \<and> (case snd r ! 2 of VNull \<Rightarrow> True | VInt n \<Rightarrow> n < 200000000 - 86400000
               | VStr s \<Rightarrow> False
               | VBool b \<Rightarrow> (if b then 1 else 0) < (200000000::int) - 86400000)]"
    by simp
  have t9: "[(1::int, [VInt 1, VStr ''A'', VInt 27200000])] \<noteq> []" by simp
  have t10: "[(5::int, [VInt 5, VStr ''B'', VInt 196400000]), (7, [VInt 7, VStr ''B'', VInt 196400001])] =
      [r \<leftarrow> contents ?t.
           case snd r ! 2 of VNull \<Rightarrow> False | VInt n \<Rightarrow> 200000000 - 86400000 \<le> n
           | VStr s \<Rightarrow> True
           | VBool b \<Rightarrow> (200000000::int) - 86400000 \<le> (if b then 1 else 0)]"
    by simp
  have t11: "(5::int) = max (Max (fst ` set [(1::int, [VInt 1, VStr ''A'', VInt 27200000])]) + 1)
                          (if [(5::int, [VInt 5, VStr ''B'', VInt 196400000]), (7, [VInt 7, VStr ''B'', VInt 196400001])] = [] then 1 else Min (fst ` set [(5::int, [VInt 5, VStr ''B'', VInt 196400000]), (7, [VInt 7, VStr ''B'', VInt 196400001])]))"
    by simp
  have u1: "[''sent_transactions'' \<mapsto> ?u] ''sent_transactions'' = Some ?u" by simp
  have u2: "distinct (map fst (contents ?u))" by simp
  have u3: "distinct (columns ?u)" by simp
  have u4: "1 < length (columns ?u)" "columns ?u ! 1 = ''destination''"
    "2 < length (columns ?u)" "columns ?u ! 2 = ''ts''"
    by simp_all
  have u5: "\<forall>r \<in> set (contents ?u). \<exists>vs. snd r = VInt (fst r) # vs" by simp
  have u6: "\<forall>n. id (VInt n) = VInt n" by simp
  have u7: "port_from_sqlite3 scenario_dest = Some Map.empty" "Map.empty ''sent_transactions'' = None"
    "relations scenario_dest ''sent_transactions'' = Some []"
    by (simp_all add: scenario_dest_def)
  have u8: "[(2::int, [VInt 2, VStr ''A'', VInt 27200001])] =
      [r \<leftarrow> contents ?u.
           (\<forall>r' \<in> set (contents ?u). snd r' ! 1 = snd r ! 1 \<longrightarrow> fst r' \<le> fst r)
           \<and> (case snd r ! 2 of VNull \<Rightarrow> True | VInt n \<Rightarrow> n < 200000000 - 86400000
               | VStr s \<Rightarrow> False
               | VBool b \<Rightarrow> (if b then 1 else 0) < (200000000::int) - 86400000)]"
    by simp
  have u9: "[(2::int, [VInt 2, VStr ''A'', VInt 27200001])] \<noteq> []" by simp
  have u10: "([]::(int \<times> val list) list) =
      [r \<leftarrow> contents ?u.
           case snd r ! 2 of VNull \<Rightarrow> False | VInt n \<Rightarrow> 200000000 - 86400000 \<le> n
           | VStr s \<Rightarrow> True
           | VBool b \<Rightarrow> (200000000::int) - 86400000 \<le> (if b then 1 else 0)]"
    by simp
  have u11: "(3::int) = max (Max (fst ` set [(2::int, [VInt 2, VStr ''A'', VInt 27200001])]) + 1)
                          (if ([]::(int \<times> val list) list) = [] then 1 else Min (fst ` set ([]::(int \<times> val list) list)))"
    by simp
  show ?thesis
    using setup_sent_transactions_cursor[of scenario_src scenario_table 2 5 id scenario_dest
        Map.empty "[]" "[?row3]" 200000000 "[?row2]" 4,
        OF s1 s2 s3 s4 s5 s6 s7 s8 s9 s10 s11]
      setup_sent_transactions_cursor[of "[''sent_transactions'' \<mapsto> ?t]" ?t 1 2 id scenario_dest
        Map.empty "[]" "[(1::int, [VInt 1, VStr ''A'', VInt 27200000])]" 200000000
        "[(5::int, [VInt 5, VStr ''B'', VInt 196400000]), (7, [VInt 7, VStr ''B'', VInt 196400001])]" 5,
        OF t1 t2 t3 t4 t5 t6 t7 t8 t9 t10 t11]
      setup_sent_transactions_cursor[of "[''sent_transactions'' \<mapsto> ?u]" ?u 1 2 id scenario_dest
        Map.empty "[]" "[(2::int, [VInt 2, VStr ''A'', VInt 27200001])]" 200000000
        "[]" 3, OF u1 u2 u3 u4 u5 u6 u7 u8 u9 u10 u11]
    by simp
qed

text \<open>
  In the example the selection is row 3 and the first row of the last 24 hours is
  row 2: the value stored is \<open>max (3 + 1) 2 = 4\<close>, not \<open>max 3 2 = 3\<close>.
\<close>

theorem setup_sent_transactions_scenario_cursor:
  "fst (setup_sent_transactions id 200000000 scenario_src scenario_dest) = Inr (4, 1, 2)
   \<and> map (\<lambda>d. cursor d ''sent_transactions'')
        (snd (setup_sent_transactions id 200000000 scenario_src scenario_dest)) = [None, Some 4]
   \<and> max 3 (2::int) \<noteq> 4"
  by code_simp

lemma setup_table_no_port_table:
  assumes "port_from_sqlite3 d = None"
  shows "setup_table enc now_ms src table d =
           (Inl (DatabaseError ''relation port_from_sqlite3 does not exist''), [])"
  using assms
  by (simp add: setup_table_def execute_eq simple_select_one_onecol_def delete_all_def)

lemma setup_all_no_port_table:
  assumes "port_from_sqlite3 d = None"
  shows "setup_all enc now_ms src tables d =
           (map (\<lambda>table. Inl (DatabaseError ''relation port_from_sqlite3 does not exist'')) tables, d)"
  using assms
  by (induction tables) (simp_all add: setup_table_no_port_table final_def)

lemma gatherResults_all_Inl:
  "gatherResults (map (\<lambda>x. Inl e) xs) = (if xs = [] then Inr [] else Inl e)"
  by (cases xs) simp_all

text \<open>
  Claim C9, as the program has it. Every error of \<^verbatim>\<open>create_port_table\<close> is caught
  and logged, and the run goes on to the state \<^verbatim>\<open>Setting up\<close> with the database as
  it was. When the bookkeeping table exists already, the run is the planning and
  copying of the tables on the unchanged database. When the table is absent and can be
  created, it is created empty first. When it is absent and cannot be created, the run
  is not stopped there: with no table to port it ends without an error, and otherwise
  it ends with the error of the first planner, which does not find the bookkeeping
  table; nothing is written.
\<close>

theorem run_create_port_table:
  assumes "tables = [t \<leftarrow> remdups sqlite_tables. t \<in> set postgres_tables]"
    and "log = [''Preparing SQLite3'', ''Preparing PostgreSQL'', ''Fetching tables'',
                ''Creating tables'']"
  shows "(port_from_sqlite3 d \<noteq> None \<longrightarrow>
            run enc now_ms batch_size src sqlite_tables postgres_tables d =
            setup_and_process enc now_ms batch_size src tables log d)
     \<and> (port_from_sqlite3 d = None \<and> may_create d \<longrightarrow>
            run enc now_ms batch_size src sqlite_tables postgres_tables d =
            setup_and_process enc now_ms batch_size src tables log
              (d\<lparr>port_from_sqlite3 := Some Map.empty\<rparr>))
     \<and> (port_from_sqlite3 d = None \<and> \<not> may_create d \<longrightarrow>
            run enc now_ms batch_size src sqlite_tables postgres_tables d =
            \<lparr>end_error =
               (if filter eligible tables = [] then None
                else Some (DatabaseError ''relation port_from_sqlite3 does not exist'')),
             states = log @ [''Setting up''],
             finished = (filter eligible tables = []),
             destination = d\<rparr>)"
proof -
  have "setup_and_process enc now_ms batch_size src tables log d =
            \<lparr>end_error =
               (if filter eligible tables = [] then None
                else Some (DatabaseError ''relation port_from_sqlite3 does not exist'')),
             states = log @ [''Setting up''],
             finished = (filter eligible tables = []),
             destination = d\<rparr>"
    if "port_from_sqlite3 d = None"
    using that
    by (simp add: setup_and_process_def setup_all_no_port_table gatherResults_all_Inl)
  then show ?thesis
    using assms
    by (auto simp: run_def execute_eq create_port_table_def Let_def)
qed


theorem run_create_port_table_witness:
  "(let src = [''rooms'' \<mapsto> \<lparr>columns = [''room_id'', ''is_public''],
                                contents = [(1, [VStr ''r'', VInt 1])]\<rparr>];
        d = \<lparr>port_from_sqlite3 = Some Map.empty, relations = [''rooms'' \<mapsto> []],
             cascade = (\<lambda>t. []), may_create = True\<rparr>;
        res = run id 0 100 src [''rooms'', ''sqlite_sequence''] [''rooms''] d
    in end_error res = None \<and> finished res
       \<and> relations (destination res) ''rooms'' = Some [[VStr ''r'', VBool True]]
       \<and> cursor (destination res) ''rooms'' = Some 2)
   \<and> (let src = [''rooms'' \<mapsto> \<lparr>columns = [''room_id'', ''is_public''],
                                contents = [(1, [VStr ''r'', VInt 1])]\<rparr>];
        d = \<lparr>port_from_sqlite3 = None, relations = [''rooms'' \<mapsto> []],
             cascade = (\<lambda>t. []), may_create = True\<rparr>;
        res = run id 0 100 src [''rooms'', ''sqlite_sequence''] [''rooms''] d
    in end_error res = None \<and> finished res
       \<and> relations (destination res) ''rooms'' = Some [[VStr ''r'', VBool True]]
       \<and> cursor (destination res) ''rooms'' = Some 2)
   \<and> (let src = [''rooms'' \<mapsto> \<lparr>columns = [''room_id'', ''is_public''],
                                contents = [(1, [VStr ''r'', VInt 1])]\<rparr>];
        d = \<lparr>port_from_sqlite3 = None, relations = [''rooms'' \<mapsto> []],
             cascade = (\<lambda>t. []), may_create = False\<rparr>;
        res = run id 0 100 src [''rooms'', ''sqlite_sequence''] [''rooms''] d
    in end_error res = Some (DatabaseError ''relation port_from_sqlite3 does not exist'')
       \<and> \<not> finished res
       \<and> states res = [''Preparing SQLite3'', ''Preparing PostgreSQL'', ''Fetching tables'',
                        ''Creating tables'', ''Setting up'']
       \<and> relations (destination res) ''rooms'' = Some []
       \<and> port_from_sqlite3 (destination res) = None)"
proof -
  let ?src = "[''rooms'' \<mapsto> \<lparr>columns = [''room_id'', ''is_public''],
                                contents = [(1, [VStr ''r'', VInt 1])]\<rparr>]"
  let ?log = "[''Preparing SQLite3'', ''Preparing PostgreSQL'', ''Fetching tables'',
                ''Creating tables'']"
  let ?st = "[''rooms'', ''sqlite_sequence'']"
  let ?pt = "[''rooms'']"
  let ?tables = "[t \<leftarrow> remdups ?st. t \<in> set ?pt]"
  let ?a = "\<lparr>port_from_sqlite3 = Some Map.empty, relations = [''rooms'' \<mapsto> []],
             cascade = (\<lambda>t. []), may_create = True\<rparr>"
  let ?b = "\<lparr>port_from_sqlite3 = None, relations = [''rooms'' \<mapsto> []],
             cascade = (\<lambda>t. []), may_create = True\<rparr>"
  let ?c = "\<lparr>port_from_sqlite3 = None, relations = [''rooms'' \<mapsto> []],
             cascade = (\<lambda>t. []), may_create = False\<rparr>"
  let ?res = "setup_and_process id 0 100 ?src ?tables ?log ?a"
  have e: "end_error ?res = None" "finished ?res"
    "relations (destination ?res) ''rooms'' = Some [[VStr ''r'', VBool True]]"
    "cursor (destination ?res) ''rooms'' = Some 2"
    by code_simp+
  have t: "filter eligible ?tables = [''rooms'']"
    by (simp add: eligible_def)
  have a: "run id 0 100 ?src ?st ?pt ?a = ?res"
    using run_create_port_table[where tables = ?tables and sqlite_tables = ?st
        and postgres_tables = ?pt and log = ?log and d = ?a and enc = id and now_ms = 0
        and batch_size = 100 and src = ?src] by simp
  have b: "run id 0 100 ?src ?st ?pt ?b = ?res"
    using run_create_port_table[where tables = ?tables and sqlite_tables = ?st
        and postgres_tables = ?pt and log = ?log and d = ?b and enc = id and now_ms = 0
        and batch_size = 100 and src = ?src] by simp
  have c: "run id 0 100 ?src ?st ?pt ?c =
      \<lparr>end_error = Some (DatabaseError ''relation port_from_sqlite3 does not exist''),
       states = ?log @ [''Setting up''], finished = False, destination = ?c\<rparr>"
    using run_create_port_table[where tables = ?tables and sqlite_tables = ?st
        and postgres_tables = ?pt and log = ?log and d = ?c and enc = id and now_ms = 0
        and batch_size = 100 and src = ?src] t by simp
  show ?thesis
    unfolding Let_def a b c using e by simp
qed

text \<open>
  The bookkeeping table is absent and cannot be created. With no table to port the run
  ends as a run without an error does; with a table to port it goes on to the state
  \<^verbatim>\<open>Setting up\<close>, and the error it ends with is the planner's.
\<close>

theorem run_port_table_not_created:
  "(let d = \<lparr>port_from_sqlite3 = None, relations = [''rooms'' \<mapsto> []],
             cascade = (\<lambda>t. []), may_create = False\<rparr>;
        res = run id 0 100 Map.empty [] [] d
    in end_error res = None \<and> finished res)
   \<and> (let d = \<lparr>port_from_sqlite3 = None, relations = [''rooms'' \<mapsto> []],
             cascade = (\<lambda>t. []), may_create = False\<rparr>;
        res = run id 0 100 Map.empty [''rooms''] [''rooms''] d
    in last (states res) = ''Setting up''
       \<and> end_error res = Some (DatabaseError ''relation port_from_sqlite3 does not exist''))"
  by code_simp

















section \<open>Properties of the copy loop\<close>

lemma select_chunk_Inr:
  assumes "select_chunk table next_chunk batch_size src = Inr (headers, rows)"
    and "src table = Some t"
  shows "headers = ''rowid'' # columns t" and "sorted (map fst rows)"
    and "\<forall>r \<in> set rows. next_chunk \<le> fst r" and "set rows \<subseteq> set (contents t)"
proof -
  let ?xs = "[r \<leftarrow> contents t. next_chunk \<le> fst r]"
  have r: "rows = sql_limit batch_size (sort_key fst ?xs)" and h: "headers = ''rowid'' # columns t"
    using assms by (simp_all add: select_chunk_def)
  show "headers = ''rowid'' # columns t" by (rule h)
  have a: "sorted (map fst (sort_key fst ?xs))" by simp
  then have "sorted (take n (map fst (sort_key fst ?xs)))" for n
    by (rule sorted_wrt_take)
  then have b: "sorted (map fst (take n (sort_key fst ?xs)))" for n
    by (simp only: take_map)
  show "sorted (map fst rows)"
  proof (cases "batch_size < 0")
    case True
    then show ?thesis unfolding r sql_limit_def using a by simp
  next
    case False
    then show ?thesis unfolding r sql_limit_def using b by simp
  qed
  have "set rows \<subseteq> set (sort_key fst ?xs)"
    unfolding r sql_limit_def by (auto dest: in_set_takeD)
  then have s: "set rows \<subseteq> set ?xs" by simp
  then show "\<forall>r \<in> set rows. next_chunk \<le> fst r" by auto
  show "set rows \<subseteq> set (contents t)" using s by auto
qed

lemma sorted_le_last:
  "sorted xs \<Longrightarrow> x \<in> set xs \<Longrightarrow> x \<le> last (xs :: int list)"
  by (induction xs) auto

lemma sorted_fst_last:
  assumes "sorted (map fst rows)" and "r \<in> set rows"
  shows "fst r \<le> fst (last (rows :: (int \<times> 'b) list))"
proof -
  have ne: "rows \<noteq> []" using assms(2) by auto
  have "fst r \<le> last (map fst rows)"
    using sorted_le_last[of "map fst rows" "fst r"] assms by simp
  then show ?thesis using ne by (simp add: last_map)
qed

lemma insert_txn_Inr:
  assumes "insert_txn table headers rows next_chunk d = Inr d'"
  shows "\<exists>p old c. port_from_sqlite3 d = Some p \<and> relations d table = Some old
           \<and> p table = Some c
           \<and> d' = d\<lparr>relations := (relations d)(table \<mapsto> old @ rows),
                      port_from_sqlite3 := Some (p(table \<mapsto> next_chunk))\<rparr>"
  using assms
  by (auto simp: insert_txn_def insert_many_txn_def simple_update_one_txn_def
      split: option.splits sum.splits)

lemma copy_loop_Cons:
  assumes "copy_loop enc src batch_size table next_chunk d = (res, (rows, d') # rest)"
  shows "\<exists>headers. select_chunk table next_chunk batch_size src = Inr (headers, rows)
           \<and> rows \<noteq> []
           \<and> insert_txn table (tl headers) (convert_rows enc table headers (map full_row rows))
                (fst (last rows) + 1) d = Inr d'
           \<and> copy_loop enc src batch_size table (fst (last rows) + 1) d' = (res, rest)"
proof (cases "select_chunk table next_chunk batch_size src")
  case (Inl e)
  then show ?thesis
    using assms by (subst (asm) copy_loop.simps) (simp add: execute_eq del: copy_loop.simps)
next
  case (Inr x)
  obtain headers page where x: "x = (headers, page)" by (cases x)
  show ?thesis
  proof (cases "page = []")
    case True
    then show ?thesis
      using assms Inr x
      by (subst (asm) copy_loop.simps) (simp add: execute_eq del: copy_loop.simps)
  next
    case False
    let ?ins = "insert_txn table (tl headers)
        (convert_rows enc table headers (map full_row page)) (fst (last page) + 1) d"
    show ?thesis
    proof (cases ?ins)
      case (Inl e)
      then show ?thesis
        using assms Inr x False
        by (subst (asm) copy_loop.simps) (simp add: execute_eq del: copy_loop.simps)
    next
      case ins: (Inr d1)
      obtain res1 rest1 where rec:
        "copy_loop enc src batch_size table (fst (last page) + 1) d1 = (res1, rest1)"
        by (cases "copy_loop enc src batch_size table (fst (last page) + 1) d1")
      have "copy_loop enc src batch_size table next_chunk d = (res1, (page, d1) # rest1)"
        using Inr x False ins rec
        by (subst copy_loop.simps) (simp add: execute_eq del: copy_loop.simps)
      then have "res1 = res" "page = rows" "d1 = d'" "rest1 = rest"
        using assms by simp_all
      then show ?thesis using Inr x False ins rec by simp
    qed
  qed
qed

end
